theory Spec2Isabelle
  imports Main
begin

section \<open>Data model\<close>

text \<open>
  The module \<^verbatim>\<open>cloud/linode/linode_nodebalancer.py\<close> reconciles one Linode NodeBalancer
  with a desired configuration.  The remote resource is the dictionary that the lookup
  helper returns; the reconciler reads its keys \<^verbatim>\<open>NODEBALANCERID\<close>, \<^verbatim>\<open>LABEL\<close> and
  \<^verbatim>\<open>CLIENTCONNTHROTTLE\<close>.  The two creation-only attributes of the specification's
  RemoteResource are carried along.
\<close>

record nodebalancer =
  NODEBALANCERID :: int
  LABEL :: string
  CLIENTCONNTHROTTLE :: int
  DATACENTERID :: int
  PAYMENTTERM :: int

text \<open>
  \<^verbatim>\<open>linode_api.ApiError\<close>: the reconciler reads \<^verbatim>\<open>e.value[0]['ERRORCODE']\<close> and
  \<^verbatim>\<open>e.value[0]['ERRORMESSAGE']\<close>, the first entry of the provider's error array.
\<close>

record api_error =
  ERRORCODE :: int
  ERRORMESSAGE :: string

text \<open>Values passed as keyword arguments to the API methods.\<close>

datatype pyval = PyNone | PyInt int | PyStr string

fun py_of_name :: "string option \<Rightarrow> pyval" where
  "py_of_name None = PyNone"
| "py_of_name (Some s) = PyStr s"

type_synonym kwargs = "(string \<times> pyval) list"

text \<open>
  The remote calls an invocation can make: the authentication echo of \<^verbatim>\<open>main\<close>, the
  lookup \<^verbatim>\<open>linode_find_nodebalancer(api, node_balancer_id, name)\<close>, and the three writes
  with their keyword arguments.  An event is a call together with the error it raised,
  if any.
\<close>

datatype remote_call =
    Echo
  | Lookup "int option" "string option"
  | Create kwargs
  | Update kwargs
  | Delete kwargs

type_synonym event = "remote_call \<times> api_error option"

fun is_write :: "remote_call \<Rightarrow> bool" where
  "is_write (Create kw) = True"
| "is_write (Update kw) = True"
| "is_write (Delete kw) = True"
| "is_write Echo = False"
| "is_write (Lookup i n) = False"

fun is_update :: "remote_call \<Rightarrow> bool" where
  "is_update (Update kw) = True"
| "is_update c = False"


fun is_delete :: "remote_call \<Rightarrow> bool" where
  "is_delete (Delete kw) = True"
| "is_delete c = False"

definition calls :: "event list \<Rightarrow> remote_call list" where
  "calls tr = map fst tr"

definition writes :: "event list \<Rightarrow> remote_call list" where
  "writes tr = filter is_write (calls tr)"

definition raised :: "event list \<Rightarrow> api_error list" where
  "raised tr = List.map_filter snd tr"

text \<open>
  The API client and the lookup helper of \<^verbatim>\<open>ansible.module_utils.linode\<close> are
  collaborators of the module; they are parameters of the model.  Each operation takes
  the state \<open>'w\<close> of the remote side and returns either the \<^verbatim>\<open>ApiError\<close> it raises or
  its response, with the state it leaves behind.  The responses of create and update are
  read only at the key \<^verbatim>\<open>NodeBalancerID\<close>.
\<close>

record 'w client =
  test_echo :: "'w \<Rightarrow> (api_error + unit) \<times> 'w"
  linode_find_nodebalancer ::
    "int option \<Rightarrow> string option \<Rightarrow> 'w \<Rightarrow> (api_error + nodebalancer option) \<times> 'w"
  nodebalancer_create :: "kwargs \<Rightarrow> 'w \<Rightarrow> (api_error + int) \<times> 'w"
  nodebalancer_update :: "kwargs \<Rightarrow> 'w \<Rightarrow> (api_error + int) \<times> 'w"
  nodebalancer_delete :: "kwargs \<Rightarrow> 'w \<Rightarrow> (api_error + unit) \<times> 'w"

text \<open>
  What the module hands to \<^verbatim>\<open>module.exit_json\<close> (its keyword arguments) or to
  \<^verbatim>\<open>module.fail_json\<close> (the message).  Both end the process.
\<close>

datatype jval =
    JBool bool
  | JInstance "nodebalancer option"
  | JInstances "nodebalancer option list"

datatype outcome =
    Exit_json "(string \<times> jval) list"
  | Fail_json string

definition exit_json :: "bool \<Rightarrow> nodebalancer option \<Rightarrow> outcome" where
  "exit_json changed nodebalancer =
     Exit_json [(''changed'', JBool changed),
                (''instance'', JInstance nodebalancer),
                (''instances'', JInstances [nodebalancer])]"

fun reported_changed :: "outcome \<Rightarrow> bool option" where
  "reported_changed (Exit_json kw) =
     (case map_of kw ''changed'' of Some (JBool b) \<Rightarrow> Some b | _ \<Rightarrow> None)"
| "reported_changed (Fail_json msg) = None"

fun reported_instance :: "outcome \<Rightarrow> nodebalancer option option" where
  "reported_instance (Exit_json kw) =
     (case map_of kw ''instance'' of Some (JInstance nb) \<Rightarrow> Some nb | _ \<Rightarrow> None)"
| "reported_instance (Fail_json msg) = None"

fun is_success :: "outcome \<Rightarrow> bool" where
  "is_success (Exit_json kw) = True"
| "is_success (Fail_json msg) = False"

text \<open>A run yields the outcome, the remote calls made in order, and the remote state.\<close>

definition outcome_of :: "outcome \<times> event list \<times> 'w \<Rightarrow> outcome" where
  "outcome_of r = fst r"

definition trace_of :: "outcome \<times> event list \<times> 'w \<Rightarrow> event list" where
  "trace_of r = fst (snd r)"

definition remote_of :: "outcome \<times> event list \<times> 'w \<Rightarrow> 'w" where
  "remote_of r = snd (snd r)"

section \<open>Error translation\<close>

text \<open>Python's \<^verbatim>\<open>str\<close> of an integer, used by \<^verbatim>\<open>format\<close> for the error code.\<close>

definition digit_char :: "nat \<Rightarrow> char" where
  "digit_char d = char_of (48 + d)"

function str_nat :: "nat \<Rightarrow> string" where
  "str_nat n = (if n < 10 then [digit_char n] else str_nat (n div 10) @ [digit_char (n mod 10)])"
  by pat_completeness auto
termination
  by (relation "measure id") auto

declare str_nat.simps [simp del]

definition str_int :: "int \<Rightarrow> string" where
  "str_int i = (if i < 0 then ''-'' @ str_nat (nat (- i)) else str_nat (nat i))"

text \<open>
  The decorator \<^verbatim>\<open>handle_api_error\<close>: an \<^verbatim>\<open>ApiError\<close> escaping the wrapped function
  becomes \<^verbatim>\<open>fail_json(msg="FATAL: Code [{code}] - {err}")\<close>.
\<close>

definition handle_api_error :: "api_error \<Rightarrow> outcome" where
  "handle_api_error e =
     Fail_json (''FATAL: Code ['' @ str_int (ERRORCODE e) @ ''] - '' @ ERRORMESSAGE e)"

section \<open>The reconciler\<close>

text \<open>
  \<^verbatim>\<open>linodeNodeBalancers(module, api, state, name, node_balancer_id, datacenter_id,
  paymentterm, client_conn_throttle)\<close>.  The result is the outcome handed to the module,
  the remote calls made in order, and the remote state left behind.  \<^verbatim>\<open>name\<close> and
  \<^verbatim>\<open>node_balancer_id\<close> are \<^verbatim>\<open>None\<close> when the option is not given.
\<close>

definition linodeNodeBalancers ::
  "'w client \<Rightarrow> string \<Rightarrow> string option \<Rightarrow> int option \<Rightarrow> int \<Rightarrow> int \<Rightarrow> int \<Rightarrow> 'w
     \<Rightarrow> outcome \<times> event list \<times> 'w" where
  "linodeNodeBalancers api state name node_balancer_id datacenter_id paymentterm
       client_conn_throttle w =
   (let lookup = Lookup node_balancer_id name in
    case linode_find_nodebalancer api node_balancer_id name w of
      (Inl e, w1) \<Rightarrow> (handle_api_error e, [(lookup, Some e)], w1)
    | (Inr (Some nodebalancer), w1) \<Rightarrow>
        if state = ''present'' then
          if Some (LABEL nodebalancer) \<noteq> name
             \<or> CLIENTCONNTHROTTLE nodebalancer \<noteq> client_conn_throttle
          then
            let update_kwargs =
                  (if Some (LABEL nodebalancer) \<noteq> name
                   then [(''Label'', py_of_name name)] else []);
                kw = [(''NodeBalancerID'', PyInt (NODEBALANCERID nodebalancer)),
                      (''ClientConnThrottle'', PyInt client_conn_throttle)] @ update_kwargs
            in case nodebalancer_update api kw w1 of
                 (Inl e, w2) \<Rightarrow>
                   (handle_api_error e, [(lookup, None), (Update kw, Some e)], w2)
               | (Inr new, w2) \<Rightarrow>
                   (case linode_find_nodebalancer api (Some new) name w2 of
                      (Inl e, w3) \<Rightarrow>
                        (handle_api_error e,
                         [(lookup, None), (Update kw, None), (Lookup (Some new) name, Some e)],
                         w3)
                    | (Inr nodebalancer', w3) \<Rightarrow>
                        (exit_json True nodebalancer',
                         [(lookup, None), (Update kw, None), (Lookup (Some new) name, None)],
                         w3))
          else (exit_json False (Some nodebalancer), [(lookup, None)], w1)
        else if state = ''absent'' then
          let kw = [(''NodeBalancerId'', PyInt (NODEBALANCERID nodebalancer))]
          in case nodebalancer_delete api kw w1 of
               (Inl e, w2) \<Rightarrow>
                 (handle_api_error e, [(lookup, None), (Delete kw, Some e)], w2)
             | (Inr u, w2) \<Rightarrow>
                 (exit_json True None, [(lookup, None), (Delete kw, None)], w2)
        else (exit_json False (Some nodebalancer), [(lookup, None)], w1)
    | (Inr None, w1) \<Rightarrow>
        if state = ''present'' then
          let kw = [(''DatacenterID'', PyInt datacenter_id),
                    (''PaymentTerm'', PyInt paymentterm),
                    (''Label'', py_of_name name)]
          in case nodebalancer_create api kw w1 of
               (Inl e, w2) \<Rightarrow>
                 (handle_api_error e, [(lookup, None), (Create kw, Some e)], w2)
             | (Inr new, w2) \<Rightarrow>
                 (case linode_find_nodebalancer api (Some new) name w2 of
                    (Inl e, w3) \<Rightarrow>
                      (handle_api_error e,
                       [(lookup, None), (Create kw, None), (Lookup (Some new) name, Some e)],
                       w3)
                  | (Inr nodebalancer', w3) \<Rightarrow>
                      (exit_json True nodebalancer',
                       [(lookup, None), (Create kw, None), (Lookup (Some new) name, None)],
                       w3))
        else (exit_json False None, [(lookup, None)], w1))"

text \<open>
  The keyword arguments of the three writes, as the reconciler builds them: the update
  always names the resource and the throttle and carries \<^verbatim>\<open>Label\<close> only when the
  label differs; the create carries datacenter, payment term and label; the delete names
  the resource.
\<close>

definition update_kw :: "nodebalancer \<Rightarrow> string option \<Rightarrow> int \<Rightarrow> kwargs" where
  "update_kw nb n t =
     [(''NodeBalancerID'', PyInt (NODEBALANCERID nb)), (''ClientConnThrottle'', PyInt t)]
     @ (if Some (LABEL nb) \<noteq> n then [(''Label'', py_of_name n)] else [])"

definition create_kw :: "int \<Rightarrow> int \<Rightarrow> string option \<Rightarrow> kwargs" where
  "create_kw d p n =
     [(''DatacenterID'', PyInt d), (''PaymentTerm'', PyInt p), (''Label'', py_of_name n)]"

definition delete_kw :: "nodebalancer \<Rightarrow> kwargs" where
  "delete_kw nb = [(''NodeBalancerId'', PyInt (NODEBALANCERID nb))]"

text \<open>
  The shapes a run of the reconciler can take: a lookup alone, a lookup that failed, a
  write that failed, a delete, a re-fetch that failed, and a write followed by its
  re-fetch.
\<close>

definition has_shape :: "int option \<Rightarrow> string option \<Rightarrow> outcome \<times> event list \<times> 'w \<Rightarrow> bool" where
  "has_shape i n r =
     ((\<exists>inst. outcome_of r = exit_json False inst \<and> trace_of r = [(Lookup i n, None)])
      \<or> (\<exists>e. outcome_of r = handle_api_error e \<and> trace_of r = [(Lookup i n, Some e)])
      \<or> (\<exists>e wr. is_write wr \<and> outcome_of r = handle_api_error e
             \<and> trace_of r = [(Lookup i n, None), (wr, Some e)])
      \<or> (\<exists>wr. is_delete wr \<and> outcome_of r = exit_json True None
             \<and> trace_of r = [(Lookup i n, None), (wr, None)])
      \<or> (\<exists>e wr new. is_write wr \<and> outcome_of r = handle_api_error e
             \<and> trace_of r = [(Lookup i n, None), (wr, None), (Lookup (Some new) n, Some e)])
      \<or> (\<exists>inst wr new. is_write wr \<and> outcome_of r = exit_json True inst
             \<and> trace_of r = [(Lookup i n, None), (wr, None), (Lookup (Some new) n, None)]))"

section \<open>The entry point\<close>

text \<open>
  The options as \<^verbatim>\<open>AnsibleModule\<close> delivers them in \<^verbatim>\<open>module.params\<close> after parsing and
  validating the argument specification.
\<close>

record params =
  param_api_key :: "string option"
  param_name :: "string option"
  param_node_balancer_id :: "int option"
  param_state :: string
  param_datacenter_id :: int
  param_paymentterm :: int
  param_client_conn_throttle :: int

text \<open>
  \<^verbatim>\<open>main\<close> from the import check on: \<open>LINODE_API_KEY\<close> is the value of that variable in
  \<^verbatim>\<open>os.environ\<close>, if set, and \<open>Api\<close> builds the client from the key.  The key is taken
  from the options unless it is missing or empty.  \<^verbatim>\<open>api.test_echo()\<close> is a remote call;
  its failure is reported with the bare provider message.
\<close>

definition main ::
  "bool \<Rightarrow> string \<Rightarrow> string option \<Rightarrow> (string \<Rightarrow> 'w client) \<Rightarrow> params \<Rightarrow> 'w
     \<Rightarrow> outcome \<times> event list \<times> 'w" where
  "main HAS_LINODE LINODE_IMPORT_ERROR LINODE_API_KEY Api p w =
   (if \<not> HAS_LINODE
    then (Fail_json (LINODE_IMPORT_ERROR @ '' (pip install linode-python)''), [], w)
    else
      case (if param_api_key p = None \<or> param_api_key p = Some []
            then LINODE_API_KEY else param_api_key p) of
        None \<Rightarrow> (Fail_json ''Unable to load LINODE_API_KEY'', [], w)
      | Some api_key \<Rightarrow>
          let api = Api api_key in
          case test_echo api w of
            (Inl e, w1) \<Rightarrow> (Fail_json (ERRORMESSAGE e), [(Echo, Some e)], w1)
          | (Inr u, w1) \<Rightarrow>
              (case linodeNodeBalancers api (param_state p) (param_name p)
                      (param_node_balancer_id p) (param_datacenter_id p)
                      (param_paymentterm p) (param_client_conn_throttle p) w1 of
                 (out, tr, w2) \<Rightarrow> (out, (Echo, None) # tr, w2)))"

section \<open>A reference remote\<close>

text \<open>
  Modelled from the spec: the remote management API and the lookup helper
  \<^verbatim>\<open>linode_find_nodebalancer\<close> are not part of the module's source.  The remote holds
  the resources in listing order and assigns ids from a counter.  A lookup resolves by id
  when an id is given, else by name, first match in the listing.  Create assigns the next
  id and stores label, datacenter and payment term with the throttle at its baseline 0;
  update mutates label and throttle in place; delete removes the resource.  A keyword
  argument that is \<^verbatim>\<open>None\<close> counts as not supplied.  The parameter names are read as
  the module spells them.

  So that remote failures can be exercised, the state carries a script \<open>faults\<close>: every
  remote call consumes its head, and an entry \<open>Some e\<close> makes that call raise \<open>e\<close>
  without touching the resources.  An empty script means no failure.
\<close>

record remote =
  balancers :: "nodebalancer list"
  next_id :: int
  faults :: "api_error option list"

definition attempt :: "remote \<Rightarrow> api_error option \<times> remote" where
  "attempt w = (case faults w of [] \<Rightarrow> (None, w) | f # fs \<Rightarrow> (f, w\<lparr>faults := fs\<rparr>))"

definition validation_failed :: api_error where
  "validation_failed = \<lparr>ERRORCODE = 8, ERRORMESSAGE = ''Data validation failed''\<rparr>"

definition object_not_found :: api_error where
  "object_not_found = \<lparr>ERRORCODE = 5, ERRORMESSAGE = ''Object not found''\<rparr>"

definition kw_int :: "kwargs \<Rightarrow> string \<Rightarrow> int option" where
  "kw_int kw k = (case map_of kw k of Some (PyInt i) \<Rightarrow> Some i | _ \<Rightarrow> None)"

definition kw_str :: "kwargs \<Rightarrow> string \<Rightarrow> string option" where
  "kw_str kw k = (case map_of kw k of Some (PyStr s) \<Rightarrow> Some s | _ \<Rightarrow> None)"

definition has_id :: "int \<Rightarrow> nodebalancer \<Rightarrow> bool" where
  "has_id i nb = (NODEBALANCERID nb = i)"

definition has_label :: "string option \<Rightarrow> nodebalancer \<Rightarrow> bool" where
  "has_label name nb = (Some (LABEL nb) = name)"

definition resolve :: "int option \<Rightarrow> string option \<Rightarrow> nodebalancer list \<Rightarrow> nodebalancer option" where
  "resolve node_balancer_id name bs =
     (case node_balancer_id of
        Some i \<Rightarrow> List.find (has_id i) bs
      | None \<Rightarrow> List.find (has_label name) bs)"

text \<open>
  Modelled from the spec: the authentication echo reads nothing and changes nothing; it
  fails only when the fault script says so.
\<close>

definition remote_echo :: "remote \<Rightarrow> (api_error + unit) \<times> remote" where
  "remote_echo w =
     (case attempt w of
        (Some e, w') \<Rightarrow> (Inl e, w')
      | (None, w') \<Rightarrow> (Inr (), w'))"

text \<open>
  Modelled from the spec: the lookup helper \<^verbatim>\<open>linode_find_nodebalancer\<close>, which is not
  in the module's source.  If an identifier is given it resolves directly by id, else by
  name (first match in the listing, or none if absent).  A lookup is one remote call.
\<close>

definition remote_find ::
  "int option \<Rightarrow> string option \<Rightarrow> remote \<Rightarrow> (api_error + nodebalancer option) \<times> remote" where
  "remote_find node_balancer_id name w =
     (case attempt w of
        (Some e, w') \<Rightarrow> (Inl e, w')
      | (None, w') \<Rightarrow> (Inr (resolve node_balancer_id name (balancers w')), w'))"

text \<open>
  Modelled from the spec: create assigns the id and stores datacenter, payment term and
  label; the throttle starts at its baseline 0.  A create without the three fields is
  rejected.
\<close>

definition remote_create :: "kwargs \<Rightarrow> remote \<Rightarrow> (api_error + int) \<times> remote" where
  "remote_create kw w =
     (case attempt w of
        (Some e, w') \<Rightarrow> (Inl e, w')
      | (None, w') \<Rightarrow>
          (case (kw_int kw ''DatacenterID'', kw_int kw ''PaymentTerm'', kw_str kw ''Label'') of
             (Some d, Some p, Some l) \<Rightarrow>
               (Inr (next_id w'),
                w'\<lparr>balancers := balancers w' @
                      [\<lparr>NODEBALANCERID = next_id w', LABEL = l, CLIENTCONNTHROTTLE = 0,
                        DATACENTERID = d, PAYMENTTERM = p\<rparr>],
                    next_id := next_id w' + 1\<rparr>)
           | _ \<Rightarrow> (Inl validation_failed, w')))"

text \<open>
  Modelled from the spec: update mutates label and throttle of the resource in place and
  leaves a field that is not supplied as it is; datacenter and payment term are never
  touched.  The response names the resource updated.
\<close>

definition apply_update :: "string option \<Rightarrow> int option \<Rightarrow> nodebalancer \<Rightarrow> nodebalancer" where
  "apply_update l t nb =
     nb\<lparr>LABEL := (case l of Some s \<Rightarrow> s | None \<Rightarrow> LABEL nb),
        CLIENTCONNTHROTTLE := (case t of Some n \<Rightarrow> n | None \<Rightarrow> CLIENTCONNTHROTTLE nb)\<rparr>"

definition remote_update :: "kwargs \<Rightarrow> remote \<Rightarrow> (api_error + int) \<times> remote" where
  "remote_update kw w =
     (case attempt w of
        (Some e, w') \<Rightarrow> (Inl e, w')
      | (None, w') \<Rightarrow>
          (case kw_int kw ''NodeBalancerID'' of
             None \<Rightarrow> (Inl validation_failed, w')
           | Some i \<Rightarrow>
               if list_ex (has_id i) (balancers w') then
                 (Inr i,
                  w'\<lparr>balancers :=
                       map (\<lambda>nb. if has_id i nb
                                  then apply_update (kw_str kw ''Label'')
                                         (kw_int kw ''ClientConnThrottle'') nb
                                  else nb) (balancers w')\<rparr>)
               else (Inl object_not_found, w')))"

text \<open>
  Modelled from the spec: delete destroys the resource with the given id.
\<close>

definition remote_delete :: "kwargs \<Rightarrow> remote \<Rightarrow> (api_error + unit) \<times> remote" where
  "remote_delete kw w =
     (case attempt w of
        (Some e, w') \<Rightarrow> (Inl e, w')
      | (None, w') \<Rightarrow>
          (case kw_int kw ''NodeBalancerId'' of
             None \<Rightarrow> (Inl validation_failed, w')
           | Some i \<Rightarrow>
               if list_ex (has_id i) (balancers w') then
                 (Inr (), w'\<lparr>balancers := filter (\<lambda>nb. \<not> has_id i nb) (balancers w')\<rparr>)
               else (Inl object_not_found, w')))"

definition linode :: "remote client" where
  "linode = \<lparr>test_echo = remote_echo,
             linode_find_nodebalancer = remote_find,
             nodebalancer_create = remote_create,
             nodebalancer_update = remote_update,
             nodebalancer_delete = remote_delete\<rparr>"

text \<open>A remote is well formed when its ids are distinct and below the counter.\<close>

definition wf_remote :: "remote \<Rightarrow> bool" where
  "wf_remote w =
     (distinct (map NODEBALANCERID (balancers w))
      \<and> list_all (\<lambda>nb. NODEBALANCERID nb < next_id w) (balancers w))"

text \<open>
  Whether the resource the lookup resolves to already is as desired, so that the
  reconciler has nothing to write.
\<close>

definition in_desired_state ::
  "string \<Rightarrow> string option \<Rightarrow> int \<Rightarrow> nodebalancer option \<Rightarrow> bool" where
  "in_desired_state state name client_conn_throttle current =
     (case current of
        Some nb \<Rightarrow>
          if state = ''present''
          then Some (LABEL nb) = name \<and> CLIENTCONNTHROTTLE nb = client_conn_throttle
          else state \<noteq> ''absent''
      | None \<Rightarrow> state \<noteq> ''present'')"

text \<open>
  What two runs in succession satisfy when the first converges the remote: the first
  succeeds and reports a change unless the remote was already as desired, the second
  writes nothing, reports no change and the same resource, and leaves the remote alone.
\<close>

definition settles ::
  "bool \<Rightarrow> outcome \<times> event list \<times> remote \<Rightarrow> outcome \<times> event list \<times> remote \<Rightarrow> bool" where
  "settles converged r1 r2 =
     (is_success (outcome_of r1)
      \<and> reported_changed (outcome_of r1) = Some (\<not> converged)
      \<and> reported_changed (outcome_of r2) = Some False
      \<and> writes (trace_of r2) = []
      \<and> reported_instance (outcome_of r2) = reported_instance (outcome_of r1)
      \<and> remote_of r2 = remote_of r1)"

definition linode_api :: "string \<Rightarrow> remote client" where
  "linode_api api_key = linode"

section \<open>Sample remotes\<close>

definition web1 :: nodebalancer where
  "web1 = \<lparr>NODEBALANCERID = 1, LABEL = ''web'', CLIENTCONNTHROTTLE = 5,
           DATACENTERID = 7, PAYMENTTERM = 1\<rparr>"

definition empty_remote :: remote where
  "empty_remote = \<lparr>balancers = [], next_id = 1, faults = []\<rparr>"

definition web_remote :: remote where
  "web_remote = \<lparr>balancers = [web1], next_id = 2, faults = []\<rparr>"

definition auth_failed :: api_error where
  "auth_failed = \<lparr>ERRORCODE = 4, ERRORMESSAGE = ''Authentication failed''\<rparr>"

definition failing_remote :: remote where
  "failing_remote = \<lparr>balancers = [web1], next_id = 2, faults = [Some auth_failed]\<rparr>"

definition web_params :: params where
  "web_params = \<lparr>param_api_key = Some ''key'', param_name = Some ''web'',
                  param_node_balancer_id = None, param_state = ''present'',
                  param_datacenter_id = 7, param_paymentterm = 1,
                  param_client_conn_throttle = 0\<rparr>"

section \<open>The branches of the reconciler\<close>

lemma run_lookup_failed:
  "linode_find_nodebalancer api i n w = (Inl e, w1) \<Longrightarrow>
   linodeNodeBalancers api s n i d p t w = (handle_api_error e, [(Lookup i n, Some e)], w1)"
  by (simp add: linodeNodeBalancers_def)

lemma run_noop_found:
  "linode_find_nodebalancer api i n w = (Inr (Some nb), w1) \<Longrightarrow>
   (s = ''present'' \<and> Some (LABEL nb) = n \<and> CLIENTCONNTHROTTLE nb = t)
     \<or> (s \<noteq> ''present'' \<and> s \<noteq> ''absent'') \<Longrightarrow>
   linodeNodeBalancers api s n i d p t w = (exit_json False (Some nb), [(Lookup i n, None)], w1)"
  by (auto simp add: linodeNodeBalancers_def)

lemma run_noop_missing:
  "linode_find_nodebalancer api i n w = (Inr None, w1) \<Longrightarrow> s \<noteq> ''present'' \<Longrightarrow>
   linodeNodeBalancers api s n i d p t w = (exit_json False None, [(Lookup i n, None)], w1)"
  by (simp add: linodeNodeBalancers_def)

lemma run_update_failed:
  "linode_find_nodebalancer api i n w = (Inr (Some nb), w1) \<Longrightarrow>
   Some (LABEL nb) \<noteq> n \<or> CLIENTCONNTHROTTLE nb \<noteq> t \<Longrightarrow>
   nodebalancer_update api (update_kw nb n t) w1 = (Inl e, w2) \<Longrightarrow>
   linodeNodeBalancers api ''present'' n i d p t w =
     (handle_api_error e, [(Lookup i n, None), (Update (update_kw nb n t), Some e)], w2)"
  by (auto simp add: linodeNodeBalancers_def update_kw_def Let_def)

lemma run_update_refetch_failed:
  "linode_find_nodebalancer api i n w = (Inr (Some nb), w1) \<Longrightarrow>
   Some (LABEL nb) \<noteq> n \<or> CLIENTCONNTHROTTLE nb \<noteq> t \<Longrightarrow>
   nodebalancer_update api (update_kw nb n t) w1 = (Inr new, w2) \<Longrightarrow>
   linode_find_nodebalancer api (Some new) n w2 = (Inl e, w3) \<Longrightarrow>
   linodeNodeBalancers api ''present'' n i d p t w =
     (handle_api_error e,
      [(Lookup i n, None), (Update (update_kw nb n t), None), (Lookup (Some new) n, Some e)],
      w3)"
  by (auto simp add: linodeNodeBalancers_def update_kw_def Let_def)

lemma run_update_ok:
  "linode_find_nodebalancer api i n w = (Inr (Some nb), w1) \<Longrightarrow>
   Some (LABEL nb) \<noteq> n \<or> CLIENTCONNTHROTTLE nb \<noteq> t \<Longrightarrow>
   nodebalancer_update api (update_kw nb n t) w1 = (Inr new, w2) \<Longrightarrow>
   linode_find_nodebalancer api (Some new) n w2 = (Inr nb', w3) \<Longrightarrow>
   linodeNodeBalancers api ''present'' n i d p t w =
     (exit_json True nb',
      [(Lookup i n, None), (Update (update_kw nb n t), None), (Lookup (Some new) n, None)],
      w3)"
  by (auto simp add: linodeNodeBalancers_def update_kw_def Let_def)

lemma run_delete_failed:
  "linode_find_nodebalancer api i n w = (Inr (Some nb), w1) \<Longrightarrow>
   nodebalancer_delete api (delete_kw nb) w1 = (Inl e, w2) \<Longrightarrow>
   linodeNodeBalancers api ''absent'' n i d p t w =
     (handle_api_error e, [(Lookup i n, None), (Delete (delete_kw nb), Some e)], w2)"
  by (simp add: linodeNodeBalancers_def delete_kw_def Let_def)

lemma run_delete_ok:
  "linode_find_nodebalancer api i n w = (Inr (Some nb), w1) \<Longrightarrow>
   nodebalancer_delete api (delete_kw nb) w1 = (Inr u, w2) \<Longrightarrow>
   linodeNodeBalancers api ''absent'' n i d p t w =
     (exit_json True None, [(Lookup i n, None), (Delete (delete_kw nb), None)], w2)"
  by (simp add: linodeNodeBalancers_def delete_kw_def Let_def)

lemma run_create_failed:
  "linode_find_nodebalancer api i n w = (Inr None, w1) \<Longrightarrow>
   nodebalancer_create api (create_kw d p n) w1 = (Inl e, w2) \<Longrightarrow>
   linodeNodeBalancers api ''present'' n i d p t w =
     (handle_api_error e, [(Lookup i n, None), (Create (create_kw d p n), Some e)], w2)"
  by (simp add: linodeNodeBalancers_def create_kw_def Let_def)

lemma run_create_refetch_failed:
  "linode_find_nodebalancer api i n w = (Inr None, w1) \<Longrightarrow>
   nodebalancer_create api (create_kw d p n) w1 = (Inr new, w2) \<Longrightarrow>
   linode_find_nodebalancer api (Some new) n w2 = (Inl e, w3) \<Longrightarrow>
   linodeNodeBalancers api ''present'' n i d p t w =
     (handle_api_error e,
      [(Lookup i n, None), (Create (create_kw d p n), None), (Lookup (Some new) n, Some e)],
      w3)"
  by (simp add: linodeNodeBalancers_def create_kw_def Let_def)

lemma run_create_ok:
  "linode_find_nodebalancer api i n w = (Inr None, w1) \<Longrightarrow>
   nodebalancer_create api (create_kw d p n) w1 = (Inr new, w2) \<Longrightarrow>
   linode_find_nodebalancer api (Some new) n w2 = (Inr nb', w3) \<Longrightarrow>
   linodeNodeBalancers api ''present'' n i d p t w =
     (exit_json True nb',
      [(Lookup i n, None), (Create (create_kw d p n), None), (Lookup (Some new) n, None)],
      w3)"
  by (simp add: linodeNodeBalancers_def create_kw_def Let_def)

lemma run_has_shape:
  "has_shape i n (linodeNodeBalancers api s n i d p t w)"
proof -
  obtain x w1 where f: "linode_find_nodebalancer api i n w = (x, w1)"
    by (cases "linode_find_nodebalancer api i n w")
  show ?thesis
  proof (cases x)
    case (Inl e)
    with f show ?thesis
      by (auto simp add: run_lookup_failed has_shape_def outcome_of_def trace_of_def)
  next
    case (Inr found)
    show ?thesis
    proof (cases found)
      case None
      note missing = f [unfolded Inr None]
      show ?thesis
      proof (cases "s = ''present''")
        case False
        with missing show ?thesis
          by (auto simp add: run_noop_missing has_shape_def outcome_of_def trace_of_def)
      next
        case True
        obtain y w2 where c: "nodebalancer_create api (create_kw d p n) w1 = (y, w2)"
          by (cases "nodebalancer_create api (create_kw d p n) w1")
        show ?thesis
        proof (cases y)
          case (Inl e)
          with missing c True show ?thesis
            by (auto simp add: run_create_failed has_shape_def outcome_of_def trace_of_def)
        next
          case (Inr new)
          obtain z w3 where g: "linode_find_nodebalancer api (Some new) n w2 = (z, w3)"
            by (cases "linode_find_nodebalancer api (Some new) n w2")
          show ?thesis
          proof (cases z)
            case (Inl e)
            from run_create_refetch_failed [OF missing c [unfolded Inr] g [unfolded Inl]] True
            show ?thesis
              by (auto simp add: has_shape_def outcome_of_def trace_of_def)
          next
            case (Inr nb')
            from run_create_ok [OF missing c [unfolded \<open>y = Inr new\<close>] g [unfolded Inr]] True
            show ?thesis
              by (auto simp add: has_shape_def outcome_of_def trace_of_def)
          qed
        qed
      qed
    next
      case (Some nb)
      note found = f [unfolded Inr Some]
      consider (present_same) "s = ''present''" "Some (LABEL nb) = n" "CLIENTCONNTHROTTLE nb = t"
        | (present_diff) "s = ''present''" "Some (LABEL nb) \<noteq> n \<or> CLIENTCONNTHROTTLE nb \<noteq> t"
        | (absent) "s = ''absent''"
        | (other) "s \<noteq> ''present''" "s \<noteq> ''absent''"
        by blast
      then show ?thesis
      proof cases
        case present_same
        with run_noop_found [OF found] show ?thesis
          by (auto simp add: has_shape_def outcome_of_def trace_of_def)
      next
        case other
        with run_noop_found [OF found] show ?thesis
          by (auto simp add: has_shape_def outcome_of_def trace_of_def)
      next
        case absent
        obtain y w2 where c: "nodebalancer_delete api (delete_kw nb) w1 = (y, w2)"
          by (cases "nodebalancer_delete api (delete_kw nb) w1")
        show ?thesis
        proof (cases y)
          case (Inl e)
          from run_delete_failed [OF found c [unfolded Inl]] absent show ?thesis
            by (auto simp add: has_shape_def outcome_of_def trace_of_def)
        next
          case (Inr u)
          from run_delete_ok [OF found c [unfolded Inr]] absent show ?thesis
            by (auto simp add: has_shape_def outcome_of_def trace_of_def)
        qed
      next
        case present_diff
        obtain y w2 where c: "nodebalancer_update api (update_kw nb n t) w1 = (y, w2)"
          by (cases "nodebalancer_update api (update_kw nb n t) w1")
        show ?thesis
        proof (cases y)
          case (Inl e)
          from run_update_failed [OF found present_diff(2) c [unfolded Inl]] present_diff(1)
          show ?thesis
            by (auto simp add: has_shape_def outcome_of_def trace_of_def)
        next
          case (Inr new)
          obtain z w3 where g: "linode_find_nodebalancer api (Some new) n w2 = (z, w3)"
            by (cases "linode_find_nodebalancer api (Some new) n w2")
          show ?thesis
          proof (cases z)
            case (Inl e)
            from run_update_refetch_failed [OF found present_diff(2) c [unfolded Inr] g [unfolded Inl]]
              present_diff(1)
            show ?thesis
              by (auto simp add: has_shape_def outcome_of_def trace_of_def)
          next
            case (Inr nb')
            from run_update_ok [OF found present_diff(2) c [unfolded \<open>y = Inr new\<close>] g [unfolded Inr]]
              present_diff(1)
            show ?thesis
              by (auto simp add: has_shape_def outcome_of_def trace_of_def)
          qed
        qed
      qed
    qed
  qed
qed

section \<open>Evaluation lemmas\<close>

lemmas proj_defs = outcome_of_def trace_of_def remote_of_def

lemmas remote_defs = linode_def remote_echo_def remote_find_def remote_create_def
  remote_update_def remote_delete_def attempt_def resolve_def kw_int_def kw_str_def
  has_id_def has_label_def apply_update_def

lemmas sample_defs = web1_def empty_remote_def web_remote_def failing_remote_def
  web_params_def auth_failed_def linode_api_def

lemma is_delete_is_write: "is_delete c \<Longrightarrow> is_write c"
  by (cases c) simp_all

lemma str_int_4: "str_int 4 = ''4''"
  by code_simp

lemma web_run_noop:
  "linodeNodeBalancers linode ''present'' (Some ''web'') None 7 1 5 web_remote
     = (exit_json False (Some web1), [(Lookup None (Some ''web''), None)], web_remote)"
  by (rule run_noop_found) (simp_all add: remote_defs sample_defs)

lemma is_write_not_Echo: "is_write c \<Longrightarrow> c \<noteq> Echo"
  by (cases c) simp_all

lemma main_trace:
  fixes w :: "'w"
  shows "trace_of (main H E K mk p w) = []
   \<or> (\<exists>e. trace_of (main H E K mk p w) = [(Echo, Some e)])
   \<or> (\<exists>(api :: 'w client) (w1 :: 'w). trace_of (main H E K mk p w) =
         (Echo, None) # trace_of (linodeNodeBalancers api (param_state p) (param_name p)
            (param_node_balancer_id p) (param_datacenter_id p) (param_paymentterm p)
            (param_client_conn_throttle p) w1))"
proof (cases "H")
  case False
  then show ?thesis by (simp add: main_def trace_of_def)
next
  case True
  show ?thesis
  proof (cases "if param_api_key p = None \<or> param_api_key p = Some []
                then K else param_api_key p")
    case None
    with True show ?thesis by (simp add: main_def trace_of_def)
  next
    case (Some k)
    obtain x w1 where e: "test_echo (mk k) w = (x, w1)"
      by (cases "test_echo (mk k) w")
    show ?thesis
    proof (cases x)
      case (Inl err)
      with True Some e show ?thesis by (simp add: main_def trace_of_def)
    next
      case (Inr u)
      obtain out tr w2 where r: "linodeNodeBalancers (mk k) (param_state p) (param_name p)
            (param_node_balancer_id p) (param_datacenter_id p) (param_paymentterm p)
            (param_client_conn_throttle p) w1 = (out, tr, w2)"
        by (cases "linodeNodeBalancers (mk k) (param_state p) (param_name p)
            (param_node_balancer_id p) (param_datacenter_id p) (param_paymentterm p)
            (param_client_conn_throttle p) w1")
      from True Some e Inr r
      have "trace_of (main H E K mk p w) =
         (Echo, None) # trace_of (linodeNodeBalancers (mk k) (param_state p) (param_name p)
            (param_node_balancer_id p) (param_datacenter_id p) (param_paymentterm p)
            (param_client_conn_throttle p) w1)"
        by (simp add: main_def trace_of_def)
      then show ?thesis by blast
    qed
  qed
qed

lemma run_calls:
  "calls (trace_of (linodeNodeBalancers api s n i d p t w)) = [Lookup i n]
   \<or> (\<exists>wr. is_write wr \<and>
          calls (trace_of (linodeNodeBalancers api s n i d p t w)) = [Lookup i n, wr])
   \<or> (\<exists>wr new. is_write wr \<and>
          calls (trace_of (linodeNodeBalancers api s n i d p t w))
            = [Lookup i n, wr, Lookup (Some new) n])"
  using run_has_shape [of i n api s d p t w] unfolding has_shape_def
  by (elim disjE exE conjE) (auto simp add: calls_def is_delete_is_write)

lemma web_main_calls:
  "calls (trace_of (main True [] None linode_api web_params empty_remote))
     = [Echo, Lookup None (Some ''web''),
        Create [(''DatacenterID'', PyInt 7), (''PaymentTerm'', PyInt 1), (''Label'', PyStr ''web'')],
        Lookup (Some 1) (Some ''web'')]"
  by (simp add: main_def linodeNodeBalancers_def Let_def proj_defs calls_def remote_defs sample_defs)

section \<open>Runs against the reference remote\<close>

text \<open>
  With an empty fault script no call fails, and on a well-formed remote each branch of the
  reconciler has a closed form.
\<close>

lemma find_calm:
  "faults w = [] \<Longrightarrow>
   linode_find_nodebalancer linode i n w = (Inr (resolve i n (balancers w)), w)"
  by (simp add: linode_def remote_find_def attempt_def)

lemma find_holds: "List.find P bs = Some nb \<Longrightarrow> P nb \<and> nb \<in> set bs"
  by (induction bs) (auto split: if_splits)

lemma resolve_in: "resolve i n bs = Some nb \<Longrightarrow> nb \<in> set bs"
  by (auto simp add: resolve_def split: option.splits dest: find_holds)

lemma resolve_by_id: "resolve (Some j) n bs = Some nb \<Longrightarrow> NODEBALANCERID nb = j"
  by (auto simp add: resolve_def has_id_def dest: find_holds)

lemma resolve_by_name: "resolve None n bs = Some nb \<Longrightarrow> Some (LABEL nb) = n"
  by (auto simp add: resolve_def has_label_def dest: find_holds)

lemma same_id_same:
  "distinct (map NODEBALANCERID bs) \<Longrightarrow> x \<in> set bs \<Longrightarrow> y \<in> set bs \<Longrightarrow>
   NODEBALANCERID x = NODEBALANCERID y \<Longrightarrow> x = y"
  by (auto simp add: distinct_map inj_on_def)

lemma find_id:
  "distinct (map NODEBALANCERID bs) \<Longrightarrow> nb \<in> set bs \<Longrightarrow>
   List.find (has_id (NODEBALANCERID nb)) bs = Some nb"
proof (induction bs)
  case Nil
  then show ?case by simp
next
  case (Cons a bs)
  show ?case
  proof (cases "a = nb")
    case True
    then show ?thesis by (simp add: has_id_def)
  next
    case False
    with Cons.prems have "nb \<in> set bs" by simp
    with Cons.prems have "NODEBALANCERID a \<noteq> NODEBALANCERID nb" by auto
    with Cons \<open>nb \<in> set bs\<close> show ?thesis by (simp add: has_id_def)
  qed
qed

lemma find_map_upd:
  "List.find P bs = Some nb \<Longrightarrow> (\<And>x. x \<in> set bs \<Longrightarrow> x \<noteq> nb \<Longrightarrow> f x = x) \<Longrightarrow>
   P (f nb) \<Longrightarrow> List.find P (map f bs) = Some (f nb)"
proof (induction bs)
  case Nil
  then show ?case by simp
next
  case (Cons a bs)
  show ?case
  proof (cases "P a")
    case True
    with Cons.prems(1) have "a = nb" by simp
    with Cons.prems(3) show ?thesis by simp
  next
    case False
    with Cons.prems(1) have rest: "List.find P bs = Some nb" by simp
    from find_holds [OF rest] False have "a \<noteq> nb" by auto
    with Cons.prems(2) have "f a = a" by simp
    with False Cons.IH [OF rest Cons.prems(2) Cons.prems(3)] show ?thesis by simp
  qed
qed

lemma find_append_new:
  "List.find P bs = None \<Longrightarrow> P x \<Longrightarrow> List.find P (bs @ [x]) = Some x"
  by (induction bs) (auto split: if_splits)

lemma find_below_counter:
  "list_all (\<lambda>nb. NODEBALANCERID nb < k) bs \<Longrightarrow> List.find (has_id k) bs = None"
  by (induction bs) (auto simp add: has_id_def)

lemma find_filter_id:
  "List.find (has_id j) (filter (\<lambda>x. \<not> has_id j x) bs) = None"
  by (simp add: find_None_iff)

lemma only_match:
  "List.find P bs = Some nb \<Longrightarrow> length (filter P bs) \<le> 1 \<Longrightarrow>
   x \<in> set bs \<Longrightarrow> P x \<Longrightarrow> x = nb"
proof -
  assume f: "List.find P bs = Some nb" and l: "length (filter P bs) \<le> 1"
    and x: "x \<in> set bs" "P x"
  from find_holds [OF f] have "nb \<in> set (filter P bs)" by simp
  moreover from x have "x \<in> set (filter P bs)" by simp
  ultimately show "x = nb"
    using l by (cases "filter P bs") (auto split: if_splits)
qed

lemma find_filter_only:
  "List.find P bs = Some nb \<Longrightarrow> length (filter P bs) \<le> 1 \<Longrightarrow>
   List.find P (filter (\<lambda>x. \<not> has_id (NODEBALANCERID nb) x) bs) = None"
  by (auto simp add: find_None_iff has_id_def dest: only_match)


lemma update_kw_fields:
  "kw_int (update_kw nb n t) ''NodeBalancerID'' = Some (NODEBALANCERID nb)"
  "kw_int (update_kw nb n t) ''ClientConnThrottle'' = Some t"
  "kw_str (update_kw nb (Some l) t) ''Label'' = (if LABEL nb \<noteq> l then Some l else None)"
  by (simp_all add: update_kw_def kw_int_def kw_str_def)

lemma update_calm:
  assumes calm: "faults w = []"
      and mem: "nb \<in> set (balancers w)"
      and ids: "distinct (map NODEBALANCERID (balancers w))"
  shows "nodebalancer_update linode (update_kw nb (Some l) t) w =
           (Inr (NODEBALANCERID nb),
            w\<lparr>balancers := map (\<lambda>x. if x = nb then nb\<lparr>LABEL := l, CLIENTCONNTHROTTLE := t\<rparr>
                                      else x) (balancers w)\<rparr>)"
proof -
  have ex: "list_ex (has_id (NODEBALANCERID nb)) (balancers w)"
    using mem by (auto simp add: list_ex_iff has_id_def)
  have same: "map (\<lambda>x. if has_id (NODEBALANCERID nb) x
                       then apply_update (kw_str (update_kw nb (Some l) t) ''Label'')
                              (kw_int (update_kw nb (Some l) t) ''ClientConnThrottle'') x
                       else x) (balancers w)
              = map (\<lambda>x. if x = nb then nb\<lparr>LABEL := l, CLIENTCONNTHROTTLE := t\<rparr> else x)
                  (balancers w)"
  proof (rule map_cong [OF refl])
    fix x assume x: "x \<in> set (balancers w)"
    show "(if has_id (NODEBALANCERID nb) x
           then apply_update (kw_str (update_kw nb (Some l) t) ''Label'')
                  (kw_int (update_kw nb (Some l) t) ''ClientConnThrottle'') x
           else x)
          = (if x = nb then nb\<lparr>LABEL := l, CLIENTCONNTHROTTLE := t\<rparr> else x)"
    proof (cases "x = nb")
      case True
      then show ?thesis
        by (simp add: has_id_def update_kw_fields apply_update_def)
    next
      case False
      with same_id_same [OF ids x mem] have "\<not> has_id (NODEBALANCERID nb) x"
        by (auto simp add: has_id_def)
      with False show ?thesis by simp
    qed
  qed
  show ?thesis
    using calm ex
    by (simp add: linode_def remote_update_def attempt_def update_kw_fields same)
qed

lemma ref_update_run:
  assumes wf: "wf_remote w" and calm: "faults w = []"
      and found: "resolve i (Some l) (balancers w) = Some nb"
      and diff: "Some (LABEL nb) \<noteq> Some l \<or> CLIENTCONNTHROTTLE nb \<noteq> t"
  shows "linodeNodeBalancers linode ''present'' (Some l) i d p t w =
           (exit_json True (Some (nb\<lparr>LABEL := l, CLIENTCONNTHROTTLE := t\<rparr>)),
            [(Lookup i (Some l), None), (Update (update_kw nb (Some l) t), None),
             (Lookup (Some (NODEBALANCERID nb)) (Some l), None)],
            w\<lparr>balancers := map (\<lambda>x. if x = nb then nb\<lparr>LABEL := l, CLIENTCONNTHROTTLE := t\<rparr>
                                      else x) (balancers w)\<rparr>)"
proof -
  let ?nb' = "nb\<lparr>LABEL := l, CLIENTCONNTHROTTLE := t\<rparr>"
  let ?f = "\<lambda>x. if x = nb then ?nb' else x"
  let ?w' = "w\<lparr>balancers := map ?f (balancers w)\<rparr>"
  from wf have ids: "distinct (map NODEBALANCERID (balancers w))"
    by (simp add: wf_remote_def)
  from found have mem: "nb \<in> set (balancers w)" by (rule resolve_in)
  have f1: "linode_find_nodebalancer linode i (Some l) w = (Inr (Some nb), w)"
    using find_calm [OF calm] found by simp
  have u: "nodebalancer_update linode (update_kw nb (Some l) t) w
             = (Inr (NODEBALANCERID nb), ?w')"
    by (rule update_calm [OF calm mem ids])
  have "List.find (has_id (NODEBALANCERID nb)) (map ?f (balancers w)) = Some (?f nb)"
    by (rule find_map_upd [OF find_id [OF ids mem]]) (simp_all add: has_id_def)
  then have "resolve (Some (NODEBALANCERID nb)) (Some l) (balancers ?w') = Some ?nb'"
    by (simp add: resolve_def)
  moreover have "faults ?w' = []" using calm by simp
  ultimately have f2: "linode_find_nodebalancer linode (Some (NODEBALANCERID nb)) (Some l) ?w'
             = (Inr (Some ?nb'), ?w')"
    using find_calm [of ?w' "Some (NODEBALANCERID nb)" "Some l"] by simp
  show ?thesis
    by (rule run_update_ok [OF f1 diff u f2])
qed

lemma create_calm:
  "faults w = [] \<Longrightarrow>
   nodebalancer_create linode (create_kw d p (Some l)) w =
     (Inr (next_id w),
      w\<lparr>balancers := balancers w @
            [\<lparr>NODEBALANCERID = next_id w, LABEL = l, CLIENTCONNTHROTTLE = 0,
              DATACENTERID = d, PAYMENTTERM = p\<rparr>],
         next_id := next_id w + 1\<rparr>)"
  by (simp add: linode_def remote_create_def attempt_def create_kw_def kw_int_def kw_str_def)

lemma ref_create_run:
  assumes wf: "wf_remote w" and calm: "faults w = []"
      and missing: "resolve i (Some l) (balancers w) = None"
  shows "linodeNodeBalancers linode ''present'' (Some l) i d p t w =
           (exit_json True (Some \<lparr>NODEBALANCERID = next_id w, LABEL = l, CLIENTCONNTHROTTLE = 0,
                                  DATACENTERID = d, PAYMENTTERM = p\<rparr>),
            [(Lookup i (Some l), None), (Create (create_kw d p (Some l)), None),
             (Lookup (Some (next_id w)) (Some l), None)],
            w\<lparr>balancers := balancers w @
                  [\<lparr>NODEBALANCERID = next_id w, LABEL = l, CLIENTCONNTHROTTLE = 0,
                    DATACENTERID = d, PAYMENTTERM = p\<rparr>],
               next_id := next_id w + 1\<rparr>)"
proof -
  let ?new = "\<lparr>NODEBALANCERID = next_id w, LABEL = l, CLIENTCONNTHROTTLE = 0,
               DATACENTERID = d, PAYMENTTERM = p\<rparr>"
  let ?w' = "w\<lparr>balancers := balancers w @ [?new], next_id := next_id w + 1\<rparr>"
  have f1: "linode_find_nodebalancer linode i (Some l) w = (Inr None, w)"
    using find_calm [OF calm] missing by simp
  have c: "nodebalancer_create linode (create_kw d p (Some l)) w = (Inr (next_id w), ?w')"
    by (rule create_calm [OF calm])
  from wf have "List.find (has_id (next_id w)) (balancers w) = None"
    by (simp add: wf_remote_def find_below_counter)
  then have "List.find (has_id (next_id w)) (balancers w @ [?new]) = Some ?new"
    by (rule find_append_new) (simp add: has_id_def)
  then have "resolve (Some (next_id w)) (Some l) (balancers ?w') = Some ?new"
    by (simp add: resolve_def)
  moreover have "faults ?w' = []" using calm by simp
  ultimately have f2: "linode_find_nodebalancer linode (Some (next_id w)) (Some l) ?w'
             = (Inr (Some ?new), ?w')"
    using find_calm [of ?w' "Some (next_id w)" "Some l"] by simp
  show ?thesis
    by (rule run_create_ok [OF f1 c f2])
qed

lemma ref_delete_run:
  assumes calm: "faults w = []"
      and found: "resolve i n (balancers w) = Some nb"
  shows "linodeNodeBalancers linode ''absent'' n i d p t w =
           (exit_json True None,
            [(Lookup i n, None), (Delete (delete_kw nb), None)],
            w\<lparr>balancers := filter (\<lambda>x. \<not> has_id (NODEBALANCERID nb) x) (balancers w)\<rparr>)"
proof -
  have f1: "linode_find_nodebalancer linode i n w = (Inr (Some nb), w)"
    using find_calm [OF calm] found by simp
  from found have "nb \<in> set (balancers w)" by (rule resolve_in)
  then have "list_ex (has_id (NODEBALANCERID nb)) (balancers w)"
    by (auto simp add: list_ex_iff has_id_def)
  then have dl: "nodebalancer_delete linode (delete_kw nb) w =
      (Inr (), w\<lparr>balancers := filter (\<lambda>x. \<not> has_id (NODEBALANCERID nb) x) (balancers w)\<rparr>)"
    using calm by (simp add: linode_def remote_delete_def attempt_def delete_kw_def kw_int_def)
  show ?thesis
    by (rule run_delete_ok [OF f1 dl])
qed

lemma ref_noop_found:
  assumes calm: "faults w = []"
      and found: "resolve i n (balancers w) = Some nb"
      and same: "(s = ''present'' \<and> Some (LABEL nb) = n \<and> CLIENTCONNTHROTTLE nb = t)
                 \<or> (s \<noteq> ''present'' \<and> s \<noteq> ''absent'')"
  shows "linodeNodeBalancers linode s n i d p t w =
           (exit_json False (Some nb), [(Lookup i n, None)], w)"
proof -
  have f1: "linode_find_nodebalancer linode i n w = (Inr (Some nb), w)"
    using find_calm [OF calm] found by simp
  show ?thesis by (rule run_noop_found [OF f1 same])
qed

lemma ref_noop_missing:
  assumes calm: "faults w = []"
      and missing: "resolve i n (balancers w) = None"
      and s: "s \<noteq> ''present''"
  shows "linodeNodeBalancers linode s n i d p t w =
           (exit_json False None, [(Lookup i n, None)], w)"
proof -
  have f1: "linode_find_nodebalancer linode i n w = (Inr None, w)"
    using find_calm [OF calm] missing by simp
  show ?thesis by (rule run_noop_missing [OF f1 s])
qed

lemma update_kw_keys:
  "(''Label'' \<in> fst ` set (update_kw nb n t)) = (Some (LABEL nb) \<noteq> n)"
  "map_of (update_kw nb n t) ''ClientConnThrottle'' = Some (PyInt t)"
  "''DatacenterID'' \<notin> fst ` set (update_kw nb n t)"
  "''PaymentTerm'' \<notin> fst ` set (update_kw nb n t)"
  by (auto simp add: update_kw_def)


lemma wf_web_remote: "wf_remote web_remote"
  by (simp add: wf_remote_def web_remote_def web1_def)

lemma wf_empty_remote: "wf_remote empty_remote"
  by (simp add: wf_remote_def empty_remote_def)

lemma resolve_after_update:
  assumes found: "resolve i (Some l) bs = Some nb"
  shows "resolve i (Some l)
           (map (\<lambda>x. if x = nb then nb\<lparr>LABEL := l, CLIENTCONNTHROTTLE := t\<rparr> else x) bs)
         = Some (nb\<lparr>LABEL := l, CLIENTCONNTHROTTLE := t\<rparr>)"
proof (cases i)
  case None
  with found have f: "List.find (has_label (Some l)) bs = Some nb"
    by (simp add: resolve_def)
  have "List.find (has_label (Some l))
          (map (\<lambda>x. if x = nb then nb\<lparr>LABEL := l, CLIENTCONNTHROTTLE := t\<rparr> else x) bs)
        = Some ((\<lambda>x. if x = nb then nb\<lparr>LABEL := l, CLIENTCONNTHROTTLE := t\<rparr> else x) nb)"
    by (rule find_map_upd [OF f]) (simp_all add: has_label_def)
  with None show ?thesis by (simp add: resolve_def)
next
  case (Some j)
  with found have f: "List.find (has_id j) bs = Some nb"
    by (simp add: resolve_def)
  from find_holds [OF f] have j: "NODEBALANCERID nb = j" by (simp add: has_id_def)
  have "List.find (has_id j)
          (map (\<lambda>x. if x = nb then nb\<lparr>LABEL := l, CLIENTCONNTHROTTLE := t\<rparr> else x) bs)
        = Some ((\<lambda>x. if x = nb then nb\<lparr>LABEL := l, CLIENTCONNTHROTTLE := t\<rparr> else x) nb)"
    by (rule find_map_upd [OF f]) (simp_all add: has_id_def j)
  with Some show ?thesis by (simp add: resolve_def)
qed

lemma resolve_after_delete:
  assumes found: "resolve i n bs = Some nb"
      and only: "i = None \<longrightarrow> length (filter (has_label n) bs) \<le> 1"
  shows "resolve i n (filter (\<lambda>x. \<not> has_id (NODEBALANCERID nb) x) bs) = None"
proof (cases i)
  case None
  with found have f: "List.find (has_label n) bs = Some nb"
    by (simp add: resolve_def)
  from None only have "length (filter (has_label n) bs) \<le> 1" by simp
  from find_filter_only [OF f this] None show ?thesis by (simp add: resolve_def)
next
  case (Some j)
  with found have "NODEBALANCERID nb = j" by (simp add: resolve_by_id)
  with Some show ?thesis by (simp add: resolve_def find_filter_id)
qed

lemma resolve_after_create:
  assumes missing: "resolve None (Some l) bs = None"
  shows "resolve None (Some l)
           (bs @ [\<lparr>NODEBALANCERID = k, LABEL = l, CLIENTCONNTHROTTLE = 0,
                    DATACENTERID = d, PAYMENTTERM = p\<rparr>])
         = Some \<lparr>NODEBALANCERID = k, LABEL = l, CLIENTCONNTHROTTLE = 0,
                 DATACENTERID = d, PAYMENTTERM = p\<rparr>"
proof -
  from missing have "List.find (has_label (Some l)) bs = None" by (simp add: resolve_def)
  then have "List.find (has_label (Some l))
           (bs @ [\<lparr>NODEBALANCERID = k, LABEL = l, CLIENTCONNTHROTTLE = 0,
                    DATACENTERID = d, PAYMENTTERM = p\<rparr>])
         = Some \<lparr>NODEBALANCERID = k, LABEL = l, CLIENTCONNTHROTTLE = 0,
                 DATACENTERID = d, PAYMENTTERM = p\<rparr>"
    by (rule find_append_new) (simp add: has_label_def)
  then show ?thesis by (simp add: resolve_def)
qed

lemma settles_noop:
  "r1 = (exit_json False inst, [(c, None)], w') \<Longrightarrow> r2 = r1 \<Longrightarrow> \<not> is_write c \<Longrightarrow>
   settles True r1 r2"
  by (simp add: settles_def proj_defs exit_json_def writes_def calls_def)

lemma settles_write:
  "r1 = (exit_json True inst, tr, w') \<Longrightarrow> r2 = (exit_json False inst, [(c, None)], w') \<Longrightarrow>
   \<not> is_write c \<Longrightarrow> settles False r1 r2"
  by (simp add: settles_def proj_defs exit_json_def writes_def calls_def)

lemma web_create_run:
  "linodeNodeBalancers linode ''present'' (Some ''web'') None 7 1 5 empty_remote
     = (exit_json True (Some (web1\<lparr>CLIENTCONNTHROTTLE := 0\<rparr>)),
        [(Lookup None (Some ''web''), None),
         (Create [(''DatacenterID'', PyInt 7), (''PaymentTerm'', PyInt 1),
                  (''Label'', PyStr ''web'')], None),
         (Lookup (Some 1) (Some ''web''), None)],
        \<lparr>balancers = [web1\<lparr>CLIENTCONNTHROTTLE := 0\<rparr>], next_id = 2, faults = []\<rparr>)"
  by (simp add: linodeNodeBalancers_def Let_def remote_defs sample_defs exit_json_def)

lemma web_converge_run:
  "linodeNodeBalancers linode ''present'' (Some ''web'') None 7 1 5
     \<lparr>balancers = [web1\<lparr>CLIENTCONNTHROTTLE := 0\<rparr>], next_id = 2, faults = []\<rparr>
     = (exit_json True (Some web1),
        [(Lookup None (Some ''web''), None),
         (Update [(''NodeBalancerID'', PyInt 1), (''ClientConnThrottle'', PyInt 5)], None),
         (Lookup (Some 1) (Some ''web''), None)],
        web_remote)"
  by (simp add: linodeNodeBalancers_def Let_def remote_defs sample_defs exit_json_def)

lemma web_id_only_run:
  "linodeNodeBalancers linode ''present'' None (Some 1) 7 1 5 web_remote
     = (exit_json True (Some web1),
        [(Lookup (Some 1) None, None),
         (Update [(''NodeBalancerID'', PyInt 1), (''ClientConnThrottle'', PyInt 5),
                  (''Label'', PyNone)], None),
         (Lookup (Some 1) None, None)],
        web_remote)"
  by (simp add: linodeNodeBalancers_def Let_def remote_defs sample_defs exit_json_def)


section \<open>Claims\<close>

text \<open>
  Claim C1.  When the lookup finds a resource whose label equals the desired name and
  whose throttle equals the desired throttle, and the desired state is present, the
  reconciler makes no write call (the lookup is its only remote call), hands that very
  resource to \<^verbatim>\<open>exit_json\<close> with \<^verbatim>\<open>changed=False\<close>, and leaves the remote as the lookup
  left it.  This holds for every client.
\<close>

theorem noop_when_label_and_throttle_match:
  assumes "linode_find_nodebalancer api node_balancer_id name w = (Inr (Some nb), w1)"
      and "Some (LABEL nb) = name"
      and "CLIENTCONNTHROTTLE nb = client_conn_throttle"
  shows "let r = linodeNodeBalancers api ''present'' name node_balancer_id datacenter_id
                   paymentterm client_conn_throttle w
         in writes (trace_of r) = []
            \<and> calls (trace_of r) = [Lookup node_balancer_id name]
            \<and> outcome_of r = exit_json False (Some nb)
            \<and> reported_changed (outcome_of r) = Some False
            \<and> reported_instance (outcome_of r) = Some (Some nb)
            \<and> remote_of r = w1"
  using run_noop_found [OF assms(1), of "''present''" client_conn_throttle datacenter_id paymentterm] assms(2,3)
  by (simp add: proj_defs writes_def calls_def exit_json_def)

text \<open>The hypotheses of C1 hold on the sample remote.\<close>

theorem noop_when_label_and_throttle_match_witness:
  "linode_find_nodebalancer linode None (Some ''web'') web_remote = (Inr (Some web1), web_remote)
   \<and> Some (LABEL web1) = Some ''web'' \<and> CLIENTCONNTHROTTLE web1 = 5
   \<and> writes (trace_of (linodeNodeBalancers linode ''present'' (Some ''web'') None 7 1 5 web_remote)) = []
   \<and> outcome_of (linodeNodeBalancers linode ''present'' (Some ''web'') None 7 1 5 web_remote)
       = exit_json False (Some web1)"
proof -
  have h1: "linode_find_nodebalancer linode None (Some ''web'') web_remote
              = (Inr (Some web1), web_remote)"
    by (simp add: remote_defs sample_defs)
  have h2: "Some (LABEL web1) = Some ''web''" by (simp add: web1_def)
  have h3: "CLIENTCONNTHROTTLE web1 = 5" by (simp add: web1_def)
  from noop_when_label_and_throttle_match [OF h1 h2 h3, of 7 1] h1 h2 h3 show ?thesis by (simp add: Let_def)
qed

text \<open>
  Claim C4.  With the desired state absent: when the lookup finds a resource, the
  reconciler issues exactly one write, a delete naming that resource's id, and when the
  delete succeeds it reports \<^verbatim>\<open>changed=True\<close> with no instance (when the delete raises,
  the error is reported instead); when the lookup finds nothing, no write is issued and
  \<^verbatim>\<open>changed=False\<close> is reported with no instance.
\<close>

theorem absent_deletes_or_noop:
  "(linode_find_nodebalancer api node_balancer_id name w = (Inr (Some nb), w1) \<longrightarrow>
      (let r = linodeNodeBalancers api ''absent'' name node_balancer_id datacenter_id
                 paymentterm client_conn_throttle w;
           kw = [(''NodeBalancerId'', PyInt (NODEBALANCERID nb))]
       in calls (trace_of r) = [Lookup node_balancer_id name, Delete kw]
          \<and> writes (trace_of r) = [Delete kw]
          \<and> (\<forall>u w2. nodebalancer_delete api kw w1 = (Inr u, w2) \<longrightarrow>
                outcome_of r = exit_json True None
                \<and> reported_changed (outcome_of r) = Some True
                \<and> reported_instance (outcome_of r) = Some None
                \<and> remote_of r = w2)
          \<and> (\<forall>e w2. nodebalancer_delete api kw w1 = (Inl e, w2) \<longrightarrow>
                outcome_of r = handle_api_error e)))
   \<and> (linode_find_nodebalancer api node_balancer_id name w = (Inr None, w1) \<longrightarrow>
      (let r = linodeNodeBalancers api ''absent'' name node_balancer_id datacenter_id
                 paymentterm client_conn_throttle w
       in calls (trace_of r) = [Lookup node_balancer_id name]
          \<and> writes (trace_of r) = []
          \<and> outcome_of r = exit_json False None
          \<and> reported_changed (outcome_of r) = Some False
          \<and> reported_instance (outcome_of r) = Some None
          \<and> remote_of r = w1))"
proof (intro conjI impI)
  assume found: "linode_find_nodebalancer api node_balancer_id name w = (Inr (Some nb), w1)"
  obtain y w2 where d: "nodebalancer_delete api (delete_kw nb) w1 = (y, w2)"
    by (cases "nodebalancer_delete api (delete_kw nb) w1")
  show "let r = linodeNodeBalancers api ''absent'' name node_balancer_id datacenter_id
                 paymentterm client_conn_throttle w;
           kw = [(''NodeBalancerId'', PyInt (NODEBALANCERID nb))]
       in calls (trace_of r) = [Lookup node_balancer_id name, Delete kw]
          \<and> writes (trace_of r) = [Delete kw]
          \<and> (\<forall>u w2. nodebalancer_delete api kw w1 = (Inr u, w2) \<longrightarrow>
                outcome_of r = exit_json True None
                \<and> reported_changed (outcome_of r) = Some True
                \<and> reported_instance (outcome_of r) = Some None
                \<and> remote_of r = w2)
          \<and> (\<forall>e w2. nodebalancer_delete api kw w1 = (Inl e, w2) \<longrightarrow>
                outcome_of r = handle_api_error e)"
  proof (cases y)
    case (Inl e)
    from run_delete_failed [OF found d [unfolded Inl]] d Inl show ?thesis
      by (simp add: Let_def proj_defs calls_def writes_def delete_kw_def)
  next
    case (Inr u)
    from run_delete_ok [OF found d [unfolded Inr]] d Inr show ?thesis
      by (simp add: Let_def proj_defs calls_def writes_def delete_kw_def exit_json_def)
  qed
next
  assume missing: "linode_find_nodebalancer api node_balancer_id name w = (Inr None, w1)"
  from run_noop_missing [OF missing, of "''absent''"]
  show "let r = linodeNodeBalancers api ''absent'' name node_balancer_id datacenter_id
                 paymentterm client_conn_throttle w
       in calls (trace_of r) = [Lookup node_balancer_id name]
          \<and> writes (trace_of r) = []
          \<and> outcome_of r = exit_json False None
          \<and> reported_changed (outcome_of r) = Some False
          \<and> reported_instance (outcome_of r) = Some None
          \<and> remote_of r = w1"
    by (simp add: Let_def proj_defs calls_def writes_def exit_json_def)
qed

text \<open>The hypotheses of C4 hold on the sample remote.\<close>

theorem absent_deletes_or_noop_witness:
  "linode_find_nodebalancer linode None (Some ''web'') web_remote
     = (Inr (Some web1), web_remote)
   \<and> nodebalancer_delete linode [(''NodeBalancerId'', PyInt (NODEBALANCERID web1))] web_remote
     = (Inr (), empty_remote\<lparr>next_id := 2\<rparr>)
   \<and> writes (trace_of (linodeNodeBalancers linode ''absent'' (Some ''web'') None 7 1 0 web_remote))
       = [Delete [(''NodeBalancerId'', PyInt 1)]]
   \<and> outcome_of (linodeNodeBalancers linode ''absent'' (Some ''web'') None 7 1 0 web_remote)
       = exit_json True None
   \<and> linode_find_nodebalancer linode None (Some ''web'') empty_remote
     = (Inr None, empty_remote)
   \<and> writes (trace_of (linodeNodeBalancers linode ''absent'' (Some ''web'') None 7 1 0 empty_remote))
       = []
   \<and> outcome_of (linodeNodeBalancers linode ''absent'' (Some ''web'') None 7 1 0 empty_remote)
       = exit_json False None"
proof -
  have h1: "linode_find_nodebalancer linode None (Some ''web'') web_remote
              = (Inr (Some web1), web_remote)"
    by (simp add: remote_defs sample_defs)
  have h2: "nodebalancer_delete linode [(''NodeBalancerId'', PyInt (NODEBALANCERID web1))] web_remote
              = (Inr (), empty_remote\<lparr>next_id := 2\<rparr>)"
    by (simp add: remote_defs sample_defs)
  have h3: "linode_find_nodebalancer linode None (Some ''web'') empty_remote
              = (Inr None, empty_remote)"
    by (simp add: remote_defs sample_defs)
  have i: "NODEBALANCERID web1 = 1" by (simp add: web1_def)
  from absent_deletes_or_noop [of linode None "Some ''web''" web_remote web1 web_remote 7 1 0] h1 h2 i
  have a: "writes (trace_of (linodeNodeBalancers linode ''absent'' (Some ''web'') None 7 1 0 web_remote))
       = [Delete [(''NodeBalancerId'', PyInt 1)]]
     \<and> outcome_of (linodeNodeBalancers linode ''absent'' (Some ''web'') None 7 1 0 web_remote)
       = exit_json True None"
    by (simp add: Let_def)
  from absent_deletes_or_noop [of linode None "Some ''web''" empty_remote web1 empty_remote 7 1 0] h3
  have b: "writes (trace_of (linodeNodeBalancers linode ''absent'' (Some ''web'') None 7 1 0 empty_remote))
       = []
     \<and> outcome_of (linodeNodeBalancers linode ''absent'' (Some ''web'') None 7 1 0 empty_remote)
       = exit_json False None"
    by (simp add: Let_def)
  from h1 h2 h3 a b show ?thesis by blast
qed

text \<open>
  Claim C5.  When the initial lookup raises an API error, the lookup is the only remote
  call, so no write is issued, and the failure message carries the provider's error code
  and message.  In every run, either no call raised and the run succeeded, or the call
  that raised is the last call of the run and the run reports that error as a failure:
  no step follows a failed call and no success is reported after one.
\<close>

theorem lookup_failure_aborts:
  "(linode_find_nodebalancer api node_balancer_id name w = (Inl e, w1) \<longrightarrow>
      (let r = linodeNodeBalancers api state name node_balancer_id datacenter_id
                 paymentterm client_conn_throttle w
       in trace_of r = [(Lookup node_balancer_id name, Some e)]
          \<and> writes (trace_of r) = []
          \<and> outcome_of r =
              Fail_json (''FATAL: Code ['' @ str_int (ERRORCODE e) @ ''] - '' @ ERRORMESSAGE e)
          \<and> remote_of r = w1))
   \<and> (let r = linodeNodeBalancers api state name node_balancer_id datacenter_id
                 paymentterm client_conn_throttle w
      in (raised (trace_of r) = [] \<and> is_success (outcome_of r))
         \<or> (\<exists>tr0 c e'. trace_of r = tr0 @ [(c, Some e')] \<and> raised tr0 = []
               \<and> outcome_of r = handle_api_error e' \<and> \<not> is_success (outcome_of r)))"
proof (intro conjI impI)
  assume "linode_find_nodebalancer api node_balancer_id name w = (Inl e, w1)"
  from run_lookup_failed [OF this]
  show "let r = linodeNodeBalancers api state name node_balancer_id datacenter_id
                 paymentterm client_conn_throttle w
       in trace_of r = [(Lookup node_balancer_id name, Some e)]
          \<and> writes (trace_of r) = []
          \<and> outcome_of r =
              Fail_json (''FATAL: Code ['' @ str_int (ERRORCODE e) @ ''] - '' @ ERRORMESSAGE e)
          \<and> remote_of r = w1"
    by (simp add: Let_def proj_defs calls_def writes_def handle_api_error_def)
next
  define r where "r = linodeNodeBalancers api state name node_balancer_id datacenter_id
                 paymentterm client_conn_throttle w"
  have "has_shape node_balancer_id name r"
    unfolding r_def by (rule run_has_shape)
  then have "(raised (trace_of r) = [] \<and> is_success (outcome_of r))
         \<or> (\<exists>tr0 c e'. trace_of r = tr0 @ [(c, Some e')] \<and> raised tr0 = []
               \<and> outcome_of r = handle_api_error e' \<and> \<not> is_success (outcome_of r))"
    unfolding has_shape_def
  proof (elim disjE exE conjE)
    fix inst
    assume "outcome_of r = exit_json False inst"
      "trace_of r = [(Lookup node_balancer_id name, None)]"
    then show ?thesis by (simp add: raised_def exit_json_def List.map_filter_simps)
  next
    fix e
    assume "outcome_of r = handle_api_error e"
      "trace_of r = [(Lookup node_balancer_id name, Some e)]"
    then have "trace_of r = [] @ [(Lookup node_balancer_id name, Some e)] \<and> raised [] = []
       \<and> outcome_of r = handle_api_error e \<and> \<not> is_success (outcome_of r)"
      by (simp add: raised_def handle_api_error_def List.map_filter_simps)
    then show ?thesis by blast
  next
    fix e wr
    assume "outcome_of r = handle_api_error e"
      "trace_of r = [(Lookup node_balancer_id name, None), (wr, Some e)]"
    then have "trace_of r = [(Lookup node_balancer_id name, None)] @ [(wr, Some e)]
       \<and> raised [(Lookup node_balancer_id name, None)] = []
       \<and> outcome_of r = handle_api_error e \<and> \<not> is_success (outcome_of r)"
      by (simp add: raised_def handle_api_error_def List.map_filter_simps)
    then show ?thesis by blast
  next
    fix wr
    assume "outcome_of r = exit_json True None"
      "trace_of r = [(Lookup node_balancer_id name, None), (wr, None)]"
    then show ?thesis by (simp add: raised_def exit_json_def List.map_filter_simps)
  next
    fix e wr new
    assume "outcome_of r = handle_api_error e"
      "trace_of r = [(Lookup node_balancer_id name, None), (wr, None),
                     (Lookup (Some new) name, Some e)]"
    then have "trace_of r = [(Lookup node_balancer_id name, None), (wr, None)]
                     @ [(Lookup (Some new) name, Some e)]
       \<and> raised [(Lookup node_balancer_id name, None), (wr, None)] = []
       \<and> outcome_of r = handle_api_error e \<and> \<not> is_success (outcome_of r)"
      by (simp add: raised_def handle_api_error_def List.map_filter_simps)
    then show ?thesis by blast
  next
    fix inst wr new
    assume "outcome_of r = exit_json True inst"
      "trace_of r = [(Lookup node_balancer_id name, None), (wr, None),
                     (Lookup (Some new) name, None)]"
    then show ?thesis by (simp add: raised_def exit_json_def List.map_filter_simps)
  qed
  then show "let r = linodeNodeBalancers api state name node_balancer_id datacenter_id
                 paymentterm client_conn_throttle w
      in (raised (trace_of r) = [] \<and> is_success (outcome_of r))
         \<or> (\<exists>tr0 c e'. trace_of r = tr0 @ [(c, Some e')] \<and> raised tr0 = []
               \<and> outcome_of r = handle_api_error e' \<and> \<not> is_success (outcome_of r))"
    unfolding r_def Let_def .
qed

text \<open>The hypotheses of C5 hold on the sample remote.\<close>

theorem lookup_failure_aborts_witness:
  "linode_find_nodebalancer linode None (Some ''web'') failing_remote
     = (Inl auth_failed, web_remote)
   \<and> trace_of (linodeNodeBalancers linode ''present'' (Some ''web'') None 7 1 0 failing_remote)
       = [(Lookup None (Some ''web''), Some auth_failed)]
   \<and> outcome_of (linodeNodeBalancers linode ''present'' (Some ''web'') None 7 1 0 failing_remote)
       = Fail_json ''FATAL: Code [4] - Authentication failed''"
proof -
  have h: "linode_find_nodebalancer linode None (Some ''web'') failing_remote
             = (Inl auth_failed, web_remote)"
    by (simp add: remote_defs sample_defs)
  have m: "''FATAL: Code ['' @ str_int (ERRORCODE auth_failed) @ ''] - '' @ ERRORMESSAGE auth_failed
             = ''FATAL: Code [4] - Authentication failed''"
    by (simp add: auth_failed_def str_int_4)
  from lookup_failure_aborts [of linode None "Some ''web''" failing_remote auth_failed web_remote "''present''" 7 1 0] h m
  show ?thesis by (simp add: Let_def)
qed

text \<open>
  Claim C8.  Every successful run hands \<^verbatim>\<open>exit_json\<close> exactly the three fields
  \<^verbatim>\<open>changed\<close> (a boolean), \<^verbatim>\<open>instance\<close> and \<^verbatim>\<open>instances\<close>, and \<^verbatim>\<open>instances\<close> is the
  one-element list holding the value of \<^verbatim>\<open>instance\<close>.
\<close>

theorem exit_json_fields:
  assumes "is_success (outcome_of (linodeNodeBalancers api state name node_balancer_id
             datacenter_id paymentterm client_conn_throttle w))"
  shows "\<exists>changed instance.
           outcome_of (linodeNodeBalancers api state name node_balancer_id
             datacenter_id paymentterm client_conn_throttle w)
           = Exit_json [(''changed'', JBool changed), (''instance'', JInstance instance),
                        (''instances'', JInstances [instance])]"
  using run_has_shape [of node_balancer_id name api state datacenter_id paymentterm
          client_conn_throttle w] assms
  unfolding has_shape_def
  by (elim disjE exE conjE) (auto simp add: exit_json_def handle_api_error_def)

text \<open>The hypotheses of C8 hold on the sample remote.\<close>

theorem exit_json_fields_witness:
  "is_success (outcome_of (linodeNodeBalancers linode ''present'' (Some ''web'') None 7 1 5 web_remote))
   \<and> (\<exists>changed instance.
         outcome_of (linodeNodeBalancers linode ''present'' (Some ''web'') None 7 1 5 web_remote)
         = Exit_json [(''changed'', JBool changed), (''instance'', JInstance instance),
                      (''instances'', JInstances [instance])])"
proof -
  have h: "is_success (outcome_of (linodeNodeBalancers linode ''present'' (Some ''web'') None 7 1 5 web_remote))"
    by (simp add: web_run_noop outcome_of_def exit_json_def)
  from exit_json_fields [OF h] h show ?thesis by blast
qed

text \<open>
  Claim C9.  When the invocation gives \<^verbatim>\<open>node_balancer_id\<close> and no name, the lookup
  finds a resource and the desired state is present, the label of the resource always
  differs from the null name: the reconciler issues one update carrying
  \<^verbatim>\<open>Label=None\<close>, never reports \<^verbatim>\<open>changed=False\<close>, and reports \<^verbatim>\<open>changed=True\<close> with
  the re-fetched resource whenever the update and the re-fetch succeed.  This holds in
  every remote state, so no such run is a fixed point.
\<close>

theorem id_only_always_updates:
  assumes "linode_find_nodebalancer api (Some i) None w = (Inr (Some nb), w1)"
  shows "let r = linodeNodeBalancers api ''present'' None (Some i) datacenter_id
                 paymentterm client_conn_throttle w;
             kw = [(''NodeBalancerID'', PyInt (NODEBALANCERID nb)),
                   (''ClientConnThrottle'', PyInt client_conn_throttle),
                   (''Label'', PyNone)]
         in take 2 (calls (trace_of r)) = [Lookup (Some i) None, Update kw]
            \<and> writes (trace_of r) = [Update kw]
            \<and> reported_changed (outcome_of r) \<noteq> Some False
            \<and> (is_success (outcome_of r) \<longrightarrow> reported_changed (outcome_of r) = Some True)
            \<and> (\<forall>new w2 nb' w3. nodebalancer_update api kw w1 = (Inr new, w2) \<longrightarrow>
                  linode_find_nodebalancer api (Some new) None w2 = (Inr nb', w3) \<longrightarrow>
                  outcome_of r = exit_json True nb' \<and> remote_of r = w3)"
proof -
  have diff: "Some (LABEL nb) \<noteq> None \<or> CLIENTCONNTHROTTLE nb \<noteq> client_conn_throttle"
    by simp
  have kw: "update_kw nb None client_conn_throttle =
     [(''NodeBalancerID'', PyInt (NODEBALANCERID nb)),
      (''ClientConnThrottle'', PyInt client_conn_throttle), (''Label'', PyNone)]"
    by (simp add: update_kw_def)
  obtain y w2 where u: "nodebalancer_update api (update_kw nb None client_conn_throttle) w1 = (y, w2)"
    by (cases "nodebalancer_update api (update_kw nb None client_conn_throttle) w1")
  show ?thesis
  proof (cases y)
    case (Inl e)
    from run_update_failed [OF assms diff u [unfolded Inl], of datacenter_id paymentterm] u Inl
    show ?thesis
      by (simp add: kw Let_def proj_defs calls_def writes_def handle_api_error_def)
  next
    case (Inr new)
    obtain z w3 where g: "linode_find_nodebalancer api (Some new) None w2 = (z, w3)"
      by (cases "linode_find_nodebalancer api (Some new) None w2")
    show ?thesis
    proof (cases z)
      case (Inl e)
      from run_update_refetch_failed [OF assms diff u [unfolded Inr] g [unfolded Inl],
             of datacenter_id paymentterm] u Inr g Inl
      show ?thesis
        by (simp add: kw Let_def proj_defs calls_def writes_def handle_api_error_def)
    next
      case (Inr nb')
      from run_update_ok [OF assms diff u [unfolded \<open>y = Inr new\<close>] g [unfolded Inr],
             of datacenter_id paymentterm] u \<open>y = Inr new\<close> g Inr
      show ?thesis
        by (simp add: kw Let_def proj_defs calls_def writes_def exit_json_def)
    qed
  qed
qed

text \<open>The hypotheses of C9 hold on the sample remote.\<close>

theorem id_only_always_updates_witness:
  "linode_find_nodebalancer linode (Some 1) None web_remote = (Inr (Some web1), web_remote)
   \<and> writes (trace_of (linodeNodeBalancers linode ''present'' None (Some 1) 7 1 5 web_remote))
       = [Update [(''NodeBalancerID'', PyInt 1), (''ClientConnThrottle'', PyInt 5),
                  (''Label'', PyNone)]]
   \<and> outcome_of (linodeNodeBalancers linode ''present'' None (Some 1) 7 1 5 web_remote)
       = exit_json True (Some web1)
   \<and> remote_of (linodeNodeBalancers linode ''present'' None (Some 1) 7 1 5 web_remote)
       = web_remote"
proof -
  have h: "linode_find_nodebalancer linode (Some 1) None web_remote
             = (Inr (Some web1), web_remote)"
    by (simp add: remote_defs sample_defs)
  have i: "NODEBALANCERID web1 = 1" by (simp add: web1_def)
  have u: "nodebalancer_update linode
             [(''NodeBalancerID'', PyInt 1), (''ClientConnThrottle'', PyInt 5), (''Label'', PyNone)]
             web_remote = (Inr 1, web_remote)"
    by (simp add: remote_defs sample_defs)
  from id_only_always_updates [OF h, of 7 1 5] h i u show ?thesis by (simp add: Let_def)
qed

text \<open>
  Claim C10.  In every successful run the reported \<^verbatim>\<open>changed\<close> is true exactly when
  the run issued a write (create, update or delete), and false exactly when it issued
  none.
\<close>

theorem changed_iff_write:
  assumes "is_success (outcome_of (linodeNodeBalancers api state name node_balancer_id
             datacenter_id paymentterm client_conn_throttle w))"
  shows "let r = linodeNodeBalancers api state name node_balancer_id
             datacenter_id paymentterm client_conn_throttle w
         in (reported_changed (outcome_of r) = Some True \<longleftrightarrow> writes (trace_of r) \<noteq> [])
          \<and> (reported_changed (outcome_of r) = Some False \<longleftrightarrow> writes (trace_of r) = [])"
  using run_has_shape [of node_balancer_id name api state datacenter_id paymentterm
          client_conn_throttle w] assms
  unfolding has_shape_def Let_def
  by (elim disjE exE conjE) (simp_all add: exit_json_def handle_api_error_def writes_def calls_def is_delete_is_write)

text \<open>The hypotheses of C10 hold on the sample remote.\<close>

theorem changed_iff_write_witness:
  "is_success (outcome_of (linodeNodeBalancers linode ''present'' (Some ''web'') None 7 1 5 web_remote))
   \<and> reported_changed (outcome_of (linodeNodeBalancers linode ''present'' (Some ''web'') None 7 1 5 web_remote)) = Some False
   \<and> writes (trace_of (linodeNodeBalancers linode ''present'' (Some ''web'') None 7 1 5 web_remote)) = []"
proof -
  have h: "is_success (outcome_of (linodeNodeBalancers linode ''present'' (Some ''web'') None 7 1 5 web_remote))"
    by (simp add: web_run_noop outcome_of_def exit_json_def)
  have w: "writes (trace_of (linodeNodeBalancers linode ''present'' (Some ''web'') None 7 1 5 web_remote)) = []"
    by (simp add: web_run_noop trace_of_def writes_def calls_def)
  from changed_iff_write [OF h] h w show ?thesis by (simp add: Let_def)
qed

text \<open>
  Claim C7, as stated, fails for a whole invocation: \<^verbatim>\<open>main\<close> calls \<^verbatim>\<open>api.test_echo()\<close>
  before the reconciler, so creating a missing resource makes four remote calls (echo,
  lookup, create, re-fetch).
\<close>

theorem four_calls_counterexample:
  "\<not> length (calls (trace_of (main True [] None linode_api web_params empty_remote))) \<le> 3"
  by (simp add: web_main_calls)

text \<open>
  Claim C7, amended.  Every invocation of the reconciler makes at most three remote
  calls: the lookup, then at most one write, then at most one re-fetch by the id the
  write returned.  An invocation of \<^verbatim>\<open>main\<close> makes at most four: at most one
  authentication echo, which comes first, followed by the reconciler's calls; it issues
  at most one write.
\<close>

theorem at_most_three_calls_after_echo:
  "(let r = linodeNodeBalancers api state name node_balancer_id datacenter_id
                 paymentterm client_conn_throttle w
    in length (calls (trace_of r)) \<le> 3 \<and> length (writes (trace_of r)) \<le> 1
       \<and> (calls (trace_of r) = [Lookup node_balancer_id name]
           \<or> (\<exists>wr. is_write wr \<and> calls (trace_of r) = [Lookup node_balancer_id name, wr])
           \<or> (\<exists>wr new. is_write wr \<and>
                 calls (trace_of r) = [Lookup node_balancer_id name, wr, Lookup (Some new) name])))
   \<and> (let m = main HAS_LINODE LINODE_IMPORT_ERROR LINODE_API_KEY mk_api p w'
      in length (calls (trace_of m)) \<le> 4 \<and> length (writes (trace_of m)) \<le> 1
         \<and> length (filter (\<lambda>c. c = Echo) (calls (trace_of m))) \<le> 1
         \<and> (calls (trace_of m) \<noteq> [] \<longrightarrow> hd (calls (trace_of m)) = Echo))"
  (is "?reconciler \<and> ?entry")
proof
  show ?reconciler
    using run_calls [of api state name node_balancer_id datacenter_id paymentterm
            client_conn_throttle w]
    unfolding Let_def writes_def
    by (elim disjE exE conjE) simp_all
next
  define tr where "tr = trace_of (main HAS_LINODE LINODE_IMPORT_ERROR LINODE_API_KEY mk_api p w')"
  have "length (calls tr) \<le> 4 \<and> length (writes tr) \<le> 1
         \<and> length (filter (\<lambda>c. c = Echo) (calls tr)) \<le> 1
         \<and> (calls tr \<noteq> [] \<longrightarrow> hd (calls tr) = Echo)"
    using main_trace [of HAS_LINODE LINODE_IMPORT_ERROR LINODE_API_KEY mk_api p w']
    unfolding tr_def [symmetric]
  proof (elim disjE exE)
    assume "tr = []"
    then show ?thesis by (simp add: calls_def writes_def)
  next
    fix e assume "tr = [(Echo, Some e)]"
    then show ?thesis by (simp add: calls_def writes_def)
  next
    fix api' w1
    assume t: "tr = (Echo, None) # trace_of (linodeNodeBalancers api' (param_state p)
            (param_name p) (param_node_balancer_id p) (param_datacenter_id p)
            (param_paymentterm p) (param_client_conn_throttle p) w1)"
    from run_calls [of api' "param_state p" "param_name p" "param_node_balancer_id p"
            "param_datacenter_id p" "param_paymentterm p" "param_client_conn_throttle p" w1]
    show ?thesis
      unfolding t writes_def
      by (elim disjE exE conjE) (simp_all add: calls_def is_write_not_Echo)
  qed
  then show ?entry
    unfolding tr_def Let_def .
qed

text \<open>The bound of four is reached when a missing resource is created.\<close>

theorem at_most_three_calls_after_echo_witness:
  "calls (trace_of (main True [] None linode_api web_params empty_remote)) \<noteq> []
   \<and> length (calls (trace_of (main True [] None linode_api web_params empty_remote))) = 4
   \<and> hd (calls (trace_of (main True [] None linode_api web_params empty_remote))) = Echo
   \<and> length (calls (trace_of (linodeNodeBalancers linode ''present'' (Some ''web'') None 7 1 5 web_remote))) \<le> 3"
proof -
  have h: "calls (trace_of (main True [] None linode_api web_params empty_remote)) \<noteq> []"
    by (simp add: web_main_calls)
  have l: "length (calls (trace_of (main True [] None linode_api web_params empty_remote))) = 4"
    by (simp add: web_main_calls)
  from at_most_three_calls_after_echo [of linode "''present''" "Some ''web''" None 7 1 5 web_remote
             True "[]" None linode_api web_params empty_remote] h l
  show ?thesis by (simp add: Let_def)
qed

text \<open>
  Claim C2, as stated, fails in its last clause.  An invocation that gives
  \<^verbatim>\<open>node_balancer_id\<close> and no name meets the claim's conditions: the resource exists,
  the desired state is present, and its label differs from the null name.  The run issues
  its one update, carrying \<^verbatim>\<open>Label=None\<close>, and reports \<^verbatim>\<open>changed=True\<close>, but the
  reported resource keeps the label it had; a label is a string and never equals the
  null name.
\<close>

theorem id_only_label_counterexample:
  "linode_find_nodebalancer linode (Some 1) None web_remote = (Inr (Some web1), web_remote)
   \<and> Some (LABEL web1) \<noteq> (None :: string option)
   \<and> writes (trace_of (linodeNodeBalancers linode ''present'' None (Some 1) 7 1 5 web_remote))
       = [Update [(''NodeBalancerID'', PyInt 1), (''ClientConnThrottle'', PyInt 5),
                  (''Label'', PyNone)]]
   \<and> reported_changed (outcome_of
         (linodeNodeBalancers linode ''present'' None (Some 1) 7 1 5 web_remote)) = Some True
   \<and> reported_instance (outcome_of
         (linodeNodeBalancers linode ''present'' None (Some 1) 7 1 5 web_remote))
       = Some (Some web1)
   \<and> LABEL web1 = ''web''
   \<and> map_option (map_option LABEL) (reported_instance (outcome_of
         (linodeNodeBalancers linode ''present'' None (Some 1) 7 1 5 web_remote)))
       \<noteq> Some None"
proof -
  have f: "linode_find_nodebalancer linode (Some 1) None web_remote
             = (Inr (Some web1), web_remote)"
    by (simp add: remote_defs sample_defs)
  have l: "LABEL web1 = ''web''" by (simp add: web1_def)
  show ?thesis
    unfolding web_id_only_run
    by (simp add: f l proj_defs writes_def calls_def exit_json_def)
qed

text \<open>
  Claim C2, amended.  When the lookup finds a resource, the desired state is present and
  the label or the throttle differs, the reconciler issues exactly one write, an update.
  Its keyword arguments name the resource, always carry \<^verbatim>\<open>ClientConnThrottle\<close>, carry
  \<^verbatim>\<open>Label\<close> exactly when the label differs, and never carry \<^verbatim>\<open>DatacenterID\<close> or
  \<^verbatim>\<open>PaymentTerm\<close>; when the update and the re-fetch succeed, the re-fetched resource is
  reported with \<^verbatim>\<open>changed=True\<close>.  This holds for every client and every name, given
  or not.  When a name is given, then on the reference remote, without failures, the
  reported resource carries the desired label and throttle.
\<close>

theorem update_carries_changed_label_only:
  "(linode_find_nodebalancer api node_balancer_id name w = (Inr (Some nb), w1)
      \<and> (Some (LABEL nb) \<noteq> name \<or> CLIENTCONNTHROTTLE nb \<noteq> client_conn_throttle) \<longrightarrow>
      (let r = linodeNodeBalancers api ''present'' name node_balancer_id datacenter_id
                 paymentterm client_conn_throttle w;
           kw = update_kw nb name client_conn_throttle
       in kw = [(''NodeBalancerID'', PyInt (NODEBALANCERID nb)),
                (''ClientConnThrottle'', PyInt client_conn_throttle)]
               @ (if Some (LABEL nb) \<noteq> name then [(''Label'', py_of_name name)] else [])
          \<and> take 2 (calls (trace_of r)) = [Lookup node_balancer_id name, Update kw]
          \<and> writes (trace_of r) = [Update kw]
          \<and> filter is_update (calls (trace_of r)) = [Update kw]
          \<and> (''Label'' \<in> fst ` set kw \<longleftrightarrow> Some (LABEL nb) \<noteq> name)
          \<and> map_of kw ''ClientConnThrottle'' = Some (PyInt client_conn_throttle)
          \<and> ''DatacenterID'' \<notin> fst ` set kw
          \<and> ''PaymentTerm'' \<notin> fst ` set kw
          \<and> (\<forall>new w2 nb' w3.
                nodebalancer_update api kw w1 = (Inr new, w2) \<longrightarrow>
                linode_find_nodebalancer api (Some new) name w2 = (Inr nb', w3) \<longrightarrow>
                outcome_of r = exit_json True nb')))
   \<and> (wf_remote rw \<and> faults rw = []
      \<and> resolve rid (Some l) (balancers rw) = Some rb
      \<and> (LABEL rb \<noteq> l \<or> CLIENTCONNTHROTTLE rb \<noteq> rt) \<longrightarrow>
      (let r = linodeNodeBalancers linode ''present'' (Some l) rid rd rp rt rw
       in outcome_of r = exit_json True (Some (rb\<lparr>LABEL := l, CLIENTCONNTHROTTLE := rt\<rparr>))
          \<and> reported_changed (outcome_of r) = Some True
          \<and> map_option (map_option LABEL) (reported_instance (outcome_of r)) = Some (Some l)))"
  (is "(?found \<and> ?diff \<longrightarrow> ?calls) \<and> (?ref \<longrightarrow> ?final)")
proof (intro conjI impI)
  assume "?found \<and> ?diff"
  then have found: ?found and diff: ?diff by simp_all
  let ?kw = "update_kw nb name client_conn_throttle"
  have kw: "?kw = [(''NodeBalancerID'', PyInt (NODEBALANCERID nb)),
                 (''ClientConnThrottle'', PyInt client_conn_throttle)]
                @ (if Some (LABEL nb) \<noteq> name then [(''Label'', py_of_name name)] else [])"
    by (simp add: update_kw_def)
  define r where "r = linodeNodeBalancers api ''present'' name node_balancer_id
                 datacenter_id paymentterm client_conn_throttle w"
  obtain y w2 where u: "nodebalancer_update api ?kw w1 = (y, w2)"
    by (cases "nodebalancer_update api ?kw w1")
  have tr: "take 2 (calls (trace_of r)) = [Lookup node_balancer_id name, Update ?kw]
            \<and> writes (trace_of r) = [Update ?kw]
            \<and> filter is_update (calls (trace_of r)) = [Update ?kw]
            \<and> (\<forall>new w2 nb' w3.
                nodebalancer_update api ?kw w1 = (Inr new, w2) \<longrightarrow>
                linode_find_nodebalancer api (Some new) name w2 = (Inr nb', w3) \<longrightarrow>
                outcome_of r = exit_json True nb')"
  proof (cases y)
    case (Inl e)
    from run_update_failed [OF found diff u [unfolded Inl], of datacenter_id paymentterm] u Inl
    show ?thesis
      by (simp add: r_def proj_defs calls_def writes_def)
  next
    case (Inr new)
    obtain z w3 where g: "linode_find_nodebalancer api (Some new) name w2 = (z, w3)"
      by (cases "linode_find_nodebalancer api (Some new) name w2")
    show ?thesis
    proof (cases z)
      case (Inl e)
      from run_update_refetch_failed [OF found diff u [unfolded Inr] g [unfolded Inl],
             of datacenter_id paymentterm] u Inr g Inl
      show ?thesis
        by (simp add: r_def proj_defs calls_def writes_def)
    next
      case (Inr nb')
      from run_update_ok [OF found diff u [unfolded \<open>y = Inr new\<close>] g [unfolded Inr],
             of datacenter_id paymentterm] u \<open>y = Inr new\<close> g Inr
      show ?thesis
        by (simp add: r_def proj_defs calls_def writes_def)
    qed
  qed
  from tr have t1: "take 2 (calls (trace_of r)) = [Lookup node_balancer_id name, Update ?kw]"
    and t2: "writes (trace_of r) = [Update ?kw]"
    and t3: "filter is_update (calls (trace_of r)) = [Update ?kw]"
    and t4: "\<forall>new w2 nb' w3.
                nodebalancer_update api ?kw w1 = (Inr new, w2) \<longrightarrow>
                linode_find_nodebalancer api (Some new) name w2 = (Inr nb', w3) \<longrightarrow>
                outcome_of r = exit_json True nb'"
    by blast+
  show ?calls
    unfolding Let_def r_def [symmetric]
    by (intro conjI) (rule kw update_kw_keys t1 t2 t3 t4)+
next
  assume ?ref
  then have wf: "wf_remote rw" and calm: "faults rw = []"
    and found: "resolve rid (Some l) (balancers rw) = Some rb"
    and diff: "Some (LABEL rb) \<noteq> Some l \<or> CLIENTCONNTHROTTLE rb \<noteq> rt"
    by simp_all
  from ref_update_run [OF wf calm found diff, of rd rp]
  show ?final
    by (simp add: Let_def proj_defs exit_json_def)
qed

text \<open>The hypotheses of the amended C2 hold when the sample resource is renamed by id.\<close>

theorem update_carries_changed_label_only_witness:
  "linode_find_nodebalancer linode (Some 1) (Some ''front'') web_remote
     = (Inr (Some web1), web_remote)
   \<and> Some (LABEL web1) \<noteq> Some ''front''
   \<and> wf_remote web_remote \<and> faults web_remote = []
   \<and> resolve (Some 1) (Some ''front'') (balancers web_remote) = Some web1
   \<and> writes (trace_of (linodeNodeBalancers linode ''present'' (Some ''front'') (Some 1) 7 1 5
                          web_remote))
       = [Update [(''NodeBalancerID'', PyInt 1), (''ClientConnThrottle'', PyInt 5),
                  (''Label'', PyStr ''front'')]]
   \<and> outcome_of (linodeNodeBalancers linode ''present'' (Some ''front'') (Some 1) 7 1 5 web_remote)
       = exit_json True (Some (web1\<lparr>LABEL := ''front'', CLIENTCONNTHROTTLE := 5\<rparr>))"
proof -
  have h1: "linode_find_nodebalancer linode (Some 1) (Some ''front'') web_remote
     = (Inr (Some web1), web_remote)"
    by (simp add: remote_defs sample_defs)
  have h2: "Some (LABEL web1) \<noteq> Some ''front''" by (simp add: web1_def)
  have h3: "faults web_remote = []" by (simp add: web_remote_def)
  have h4: "resolve (Some 1) (Some ''front'') (balancers web_remote) = Some web1"
    by (simp add: remote_defs sample_defs)
  have kw: "update_kw web1 (Some ''front'') 5 =
      [(''NodeBalancerID'', PyInt 1), (''ClientConnThrottle'', PyInt 5),
       (''Label'', PyStr ''front'')]"
    by (simp add: update_kw_def web1_def)
  have h5: "LABEL web1 \<noteq> ''front'' \<or> CLIENTCONNTHROTTLE web1 \<noteq> 5"
    by (simp add: web1_def)
  note c = update_carries_changed_label_only [of linode "Some 1" "Some ''front''" web_remote web1 web_remote 5 7 1
              web_remote "Some 1" "''front''" web1 5 7 1]
  from c [THEN conjunct1] h1 h2
  have p1: "writes (trace_of (linodeNodeBalancers linode ''present'' (Some ''front'') (Some 1) 7 1 5
                          web_remote)) = [Update (update_kw web1 (Some ''front'') 5)]"
    unfolding Let_def by blast
  from c [THEN conjunct2] wf_web_remote h3 h4 h5
  have p2: "outcome_of (linodeNodeBalancers linode ''present'' (Some ''front'') (Some 1) 7 1 5
                          web_remote)
       = exit_json True (Some (web1\<lparr>LABEL := ''front'', CLIENTCONNTHROTTLE := 5\<rparr>))"
    unfolding Let_def by blast
  from h1 h2 h3 h4 wf_web_remote p1 [unfolded kw] p2
  show ?thesis by (intro conjI)
qed




text \<open>
  Claim C6, as stated, fails.  A first run on a remote that is already as desired reports
  \<^verbatim>\<open>changed=False\<close>, not true.  And a first run that creates the resource leaves its
  throttle at 0, since the create does not send it: with a desired throttle of 5 the
  second run updates again, reports \<^verbatim>\<open>changed=True\<close>, and returns a different resource
  state than the first.
\<close>

theorem two_runs_counterexample:
  "reported_changed (outcome_of
      (linodeNodeBalancers linode ''present'' (Some ''web'') None 7 1 5 web_remote)) = Some False
   \<and> reported_changed (outcome_of
      (linodeNodeBalancers linode ''present'' (Some ''web'') None 7 1 5
         (remote_of (linodeNodeBalancers linode ''present'' (Some ''web'') None 7 1 5
            empty_remote)))) = Some True
   \<and> reported_instance (outcome_of
      (linodeNodeBalancers linode ''present'' (Some ''web'') None 7 1 5
         (remote_of (linodeNodeBalancers linode ''present'' (Some ''web'') None 7 1 5
            empty_remote))))
     \<noteq> reported_instance (outcome_of
      (linodeNodeBalancers linode ''present'' (Some ''web'') None 7 1 5 empty_remote))"
proof -
  have a: "reported_changed (outcome_of
      (linodeNodeBalancers linode ''present'' (Some ''web'') None 7 1 5 web_remote)) = Some False"
    by (simp add: web_run_noop outcome_of_def exit_json_def)
  have s: "remote_of (linodeNodeBalancers linode ''present'' (Some ''web'') None 7 1 5
            empty_remote)
           = \<lparr>balancers = [web1\<lparr>CLIENTCONNTHROTTLE := 0\<rparr>], next_id = 2, faults = []\<rparr>"
    by (simp add: web_create_run remote_of_def)
  have b: "reported_changed (outcome_of
      (linodeNodeBalancers linode ''present'' (Some ''web'') None 7 1 5
         (remote_of (linodeNodeBalancers linode ''present'' (Some ''web'') None 7 1 5
            empty_remote)))) = Some True"
    unfolding s by (simp add: web_converge_run outcome_of_def exit_json_def)
  have c: "reported_instance (outcome_of
      (linodeNodeBalancers linode ''present'' (Some ''web'') None 7 1 5
         (remote_of (linodeNodeBalancers linode ''present'' (Some ''web'') None 7 1 5
            empty_remote)))) = Some (Some web1)"
    unfolding s by (simp add: web_converge_run outcome_of_def exit_json_def)
  have d: "reported_instance (outcome_of
      (linodeNodeBalancers linode ''present'' (Some ''web'') None 7 1 5 empty_remote))
      = Some (Some (web1\<lparr>CLIENTCONNTHROTTLE := 0\<rparr>))"
    by (simp add: web_create_run outcome_of_def exit_json_def)
  have e: "web1 \<noteq> web1\<lparr>CLIENTCONNTHROTTLE := 0\<rparr>"
    by (simp add: web1_def)
  show ?thesis
    unfolding c d using a b e by simp
qed

text \<open>
  Claim C6, amended.  On a well-formed reference remote without failures, let the same
  desired specification be reconciled twice in succession, where a name is given when the
  state is present, a resource that has to be created is addressed by name only and
  wanted with throttle 0, and a delete by name meets at most one resource of that name.
  Then the first run succeeds and reports \<^verbatim>\<open>changed=True\<close> exactly when the remote was
  not already in the desired state; the second run issues no write, reports
  \<^verbatim>\<open>changed=False\<close>, returns the same resource as the first, and leaves the remote as
  the first run left it.
\<close>

theorem second_run_is_noop:
  assumes wf: "wf_remote w" and calm: "faults w = []"
      and named: "state = ''present'' \<longrightarrow> name \<noteq> None"
      and creates: "state = ''present'' \<and> resolve node_balancer_id name (balancers w) = None
                     \<longrightarrow> node_balancer_id = None \<and> client_conn_throttle = 0"
      and only: "state = ''absent'' \<and> node_balancer_id = None
                     \<longrightarrow> length (filter (has_label name) (balancers w)) \<le> 1"
  shows "let r1 = linodeNodeBalancers linode state name node_balancer_id datacenter_id
                    paymentterm client_conn_throttle w;
             r2 = linodeNodeBalancers linode state name node_balancer_id datacenter_id
                    paymentterm client_conn_throttle (remote_of r1)
         in is_success (outcome_of r1)
            \<and> reported_changed (outcome_of r1)
                = Some (\<not> in_desired_state state name client_conn_throttle
                            (resolve node_balancer_id name (balancers w)))
            \<and> reported_changed (outcome_of r2) = Some False
            \<and> writes (trace_of r2) = []
            \<and> reported_instance (outcome_of r2) = reported_instance (outcome_of r1)
            \<and> remote_of r2 = remote_of r1"
proof -
  define run where "run = linodeNodeBalancers linode state name node_balancer_id datacenter_id
                    paymentterm client_conn_throttle"
  let ?current = "resolve node_balancer_id name (balancers w)"
  have "settles (in_desired_state state name client_conn_throttle ?current)
          (run w) (run (remote_of (run w)))"
  proof (cases ?current)
    case None
    show ?thesis
    proof (cases "state = ''present''")
      case False
      have r1: "run w = (exit_json False None, [(Lookup node_balancer_id name, None)], w)"
        unfolding run_def by (rule ref_noop_missing [OF calm None False])
      then have "run (remote_of (run w)) = run w" by (simp add: remote_of_def)
      from settles_noop [OF r1 this] None False show ?thesis
        by (simp add: in_desired_state_def)
    next
      case True
      with named obtain l where l: "name = Some l" by auto
      from creates True None have i: "node_balancer_id = None" and t: "client_conn_throttle = 0"
        by simp_all
      let ?new = "\<lparr>NODEBALANCERID = next_id w, LABEL = l, CLIENTCONNTHROTTLE = 0,
                   DATACENTERID = datacenter_id, PAYMENTTERM = paymentterm\<rparr>"
      let ?w' = "w\<lparr>balancers := balancers w @ [?new], next_id := next_id w + 1\<rparr>"
      have r1: "run w = (exit_json True (Some ?new),
            [(Lookup None (Some l), None), (Create (create_kw datacenter_id paymentterm (Some l)), None),
             (Lookup (Some (next_id w)) (Some l), None)], ?w')"
        unfolding run_def True l i
        by (rule ref_create_run [OF wf calm None [unfolded l i]])
      have calm': "faults ?w' = []" using calm by simp
      have found': "resolve None (Some l) (balancers ?w') = Some ?new"
        using resolve_after_create [OF None [unfolded l i]] by simp
      have "run ?w' = (exit_json False (Some ?new), [(Lookup None (Some l), None)], ?w')"
        unfolding run_def True l i t
        by (rule ref_noop_found [OF calm' found']) simp
      with r1 have r2: "run (remote_of (run w))
          = (exit_json False (Some ?new), [(Lookup None (Some l), None)], ?w')"
        by (simp add: remote_of_def)
      from settles_write [OF r1 r2] None True show ?thesis
        by (simp add: in_desired_state_def)
    qed
  next
    case (Some nb)
    consider (same) "state = ''present''" "Some (LABEL nb) = name"
                    "CLIENTCONNTHROTTLE nb = client_conn_throttle"
      | (diff) "state = ''present''"
               "Some (LABEL nb) \<noteq> name \<or> CLIENTCONNTHROTTLE nb \<noteq> client_conn_throttle"
      | (absent) "state = ''absent''"
      | (other) "state \<noteq> ''present''" "state \<noteq> ''absent''"
      by blast
    then show ?thesis
    proof cases
      case same
      have r1: "run w = (exit_json False (Some nb), [(Lookup node_balancer_id name, None)], w)"
        unfolding run_def by (rule ref_noop_found [OF calm Some]) (simp add: same)
      then have "run (remote_of (run w)) = run w" by (simp add: remote_of_def)
      from settles_noop [OF r1 this] Some same show ?thesis
        by (simp add: in_desired_state_def)
    next
      case other
      have r1: "run w = (exit_json False (Some nb), [(Lookup node_balancer_id name, None)], w)"
        unfolding run_def by (rule ref_noop_found [OF calm Some]) (simp add: other)
      then have "run (remote_of (run w)) = run w" by (simp add: remote_of_def)
      from settles_noop [OF r1 this] Some other show ?thesis
        by (simp add: in_desired_state_def)
    next
      case absent
      let ?w' = "w\<lparr>balancers := filter (\<lambda>x. \<not> has_id (NODEBALANCERID nb) x) (balancers w)\<rparr>"
      have r1: "run w = (exit_json True None,
            [(Lookup node_balancer_id name, None), (Delete (delete_kw nb), None)], ?w')"
        unfolding run_def absent by (rule ref_delete_run [OF calm Some])
      have calm': "faults ?w' = []" using calm by simp
      from only absent
      have "node_balancer_id = None \<longrightarrow> length (filter (has_label name) (balancers w)) \<le> 1"
        by simp
      from resolve_after_delete [OF Some this]
      have gone: "resolve node_balancer_id name (balancers ?w') = None" by simp
      have "run ?w' = (exit_json False None, [(Lookup node_balancer_id name, None)], ?w')"
        unfolding run_def absent
        by (rule ref_noop_missing [OF calm' gone]) simp
      with r1 have r2: "run (remote_of (run w))
          = (exit_json False None, [(Lookup node_balancer_id name, None)], ?w')"
        by (simp add: remote_of_def)
      from settles_write [OF r1 r2] Some absent show ?thesis
        by (simp add: in_desired_state_def)
    next
      case diff
      with named obtain l where l: "name = Some l" by auto
      let ?nb' = "nb\<lparr>LABEL := l, CLIENTCONNTHROTTLE := client_conn_throttle\<rparr>"
      let ?w' = "w\<lparr>balancers := map (\<lambda>x. if x = nb then ?nb' else x) (balancers w)\<rparr>"
      have r1: "run w = (exit_json True (Some ?nb'),
            [(Lookup node_balancer_id (Some l), None),
             (Update (update_kw nb (Some l) client_conn_throttle), None),
             (Lookup (Some (NODEBALANCERID nb)) (Some l), None)], ?w')"
        unfolding run_def diff(1) l
        by (rule ref_update_run [OF wf calm Some [unfolded l] diff(2) [unfolded l]])
      have calm': "faults ?w' = []" using calm by simp
      have found': "resolve node_balancer_id (Some l) (balancers ?w') = Some ?nb'"
        using resolve_after_update [OF Some [unfolded l]] by simp
      have "run ?w' = (exit_json False (Some ?nb'), [(Lookup node_balancer_id (Some l), None)], ?w')"
        unfolding run_def diff(1) l
        by (rule ref_noop_found [OF calm' found']) simp
      with r1 have r2: "run (remote_of (run w))
          = (exit_json False (Some ?nb'), [(Lookup node_balancer_id (Some l), None)], ?w')"
        by (simp add: remote_of_def)
      from Some diff
      have "\<not> in_desired_state state name client_conn_throttle ?current"
        by (auto simp add: in_desired_state_def)
      with settles_write [OF r1 r2] show ?thesis by simp
    qed
  qed
  then show ?thesis
    unfolding settles_def run_def Let_def .
qed

text \<open>
  The hypotheses of the amended C6 hold when a resource is created with throttle 0 and
  when the only resource of its name is deleted.
\<close>

theorem second_run_is_noop_witness:
  "wf_remote empty_remote \<and> faults empty_remote = []
   \<and> resolve None (Some ''web'') (balancers empty_remote) = None
   \<and> reported_changed (outcome_of
        (linodeNodeBalancers linode ''present'' (Some ''web'') None 7 1 0 empty_remote))
       = Some True
   \<and> reported_changed (outcome_of
        (linodeNodeBalancers linode ''present'' (Some ''web'') None 7 1 0
          (remote_of (linodeNodeBalancers linode ''present'' (Some ''web'') None 7 1 0
             empty_remote))))
       = Some False
   \<and> wf_remote web_remote \<and> faults web_remote = []
   \<and> length (filter (has_label (Some ''web'')) (balancers web_remote)) \<le> 1
   \<and> reported_changed (outcome_of
        (linodeNodeBalancers linode ''absent'' (Some ''web'') None 7 1 0 web_remote))
       = Some True
   \<and> reported_changed (outcome_of
        (linodeNodeBalancers linode ''absent'' (Some ''web'') None 7 1 0
          (remote_of (linodeNodeBalancers linode ''absent'' (Some ''web'') None 7 1 0
             web_remote))))
       = Some False"
proof -
  have e1: "faults empty_remote = []" by (simp add: empty_remote_def)
  have e2: "resolve None (Some ''web'') (balancers empty_remote) = None"
    by (simp add: remote_defs sample_defs)
  have e3: "''present'' = ''present'' \<longrightarrow> Some ''web'' \<noteq> None" by simp
  have e4: "''present'' = ''present''
              \<and> resolve None (Some ''web'') (balancers empty_remote) = None
            \<longrightarrow> (None :: int option) = None \<and> (0 :: int) = 0" by simp
  have e5: "''present'' = ''absent'' \<and> (None :: int option) = None
            \<longrightarrow> length (filter (has_label (Some ''web'')) (balancers empty_remote)) \<le> 1"
    by simp
  have e6: "\<not> in_desired_state ''present'' (Some ''web'') 0
               (resolve None (Some ''web'') (balancers empty_remote))"
    by (simp add: in_desired_state_def e2)
  from second_run_is_noop [OF wf_empty_remote e1 e3 e4 e5, of 7 1] e6
  have a: "reported_changed (outcome_of
        (linodeNodeBalancers linode ''present'' (Some ''web'') None 7 1 0 empty_remote))
       = Some True
   \<and> reported_changed (outcome_of
        (linodeNodeBalancers linode ''present'' (Some ''web'') None 7 1 0
          (remote_of (linodeNodeBalancers linode ''present'' (Some ''web'') None 7 1 0
             empty_remote))))
       = Some False"
    unfolding Let_def by simp
  have w1: "faults web_remote = []" by (simp add: web_remote_def)
  have w2: "resolve None (Some ''web'') (balancers web_remote) = Some web1"
    by (simp add: remote_defs sample_defs)
  have w3: "''absent'' = ''present'' \<longrightarrow> Some ''web'' \<noteq> None" by simp
  have w4: "''absent'' = ''present''
              \<and> resolve None (Some ''web'') (balancers web_remote) = None
            \<longrightarrow> (None :: int option) = None \<and> (0 :: int) = 0" by simp
  have w6: "length (filter (has_label (Some ''web'')) (balancers web_remote)) \<le> 1"
    by (simp add: remote_defs sample_defs)
  then have w5: "''absent'' = ''absent'' \<and> (None :: int option) = None
            \<longrightarrow> length (filter (has_label (Some ''web'')) (balancers web_remote)) \<le> 1"
    by simp
  have w7: "\<not> in_desired_state ''absent'' (Some ''web'') 0
               (resolve None (Some ''web'') (balancers web_remote))"
    by (simp add: in_desired_state_def w2)
  from second_run_is_noop [OF wf_web_remote w1 w3 w4 w5, of 7 1] w7
  have b: "reported_changed (outcome_of
        (linodeNodeBalancers linode ''absent'' (Some ''web'') None 7 1 0 web_remote))
       = Some True
   \<and> reported_changed (outcome_of
        (linodeNodeBalancers linode ''absent'' (Some ''web'') None 7 1 0
          (remote_of (linodeNodeBalancers linode ''absent'' (Some ''web'') None 7 1 0
             web_remote))))
       = Some False"
    unfolding Let_def by simp
  from wf_empty_remote e1 e2 a wf_web_remote w1 w6 b show ?thesis by blast
qed

end
